theory Spec2Isabelle
  imports Main "HOL-Library.Sublist"
begin

section \<open>JavaScript values, as far as app.js reads them\<close>

text \<open>
  The dashboard client of \<^verbatim>\<open>src/app.js\<close> handles loosely typed JSON data. A value is
  one of the JSON shapes or \<^verbatim>\<open>undefined\<close>. Numbers are integers printed in plain decimal
  (the only numbers the program itself produces are array lengths and HTTP status codes;
  fractions and magnitudes that JavaScript prints with an exponent are left out); an
  object is its list of fields in lookup order; a string is its list of characters, and
  its \<^verbatim>\<open>length\<close> their number.
\<close>

datatype jsval =
    JUndefined
  | JNull
  | JBool bool
  | JNum int
  | JStr string
  | JArr "jsval list"
  | JObj "(string \<times> jsval) list"

text \<open>Every exception the program can meet is an \<^verbatim>\<open>Error\<close> object with a message.\<close>

datatype js_error =
    TypeError string
  | SyntaxError string
  | RangeError string
  | Error string

fun message_of :: "js_error \<Rightarrow> string" where
  "message_of (TypeError m) = m"
| "message_of (SyntaxError m) = m"
| "message_of (RangeError m) = m"
| "message_of (Error m) = m"

definition res_bind :: "js_error + 'a \<Rightarrow> ('a \<Rightarrow> js_error + 'b) \<Rightarrow> js_error + 'b" where
  "res_bind r f = (case r of Inl e \<Rightarrow> Inl e | Inr x \<Rightarrow> f x)"

fun digits :: "nat \<Rightarrow> string" where
  "digits n =
     (if n < 10 then [''0123456789'' ! n]
      else digits (n div 10) @ [''0123456789'' ! (n mod 10)])"

declare digits.simps [simp del]

fun join :: "string \<Rightarrow> string list \<Rightarrow> string" where
  "join sep [] = []"
| "join sep [x] = x"
| "join sep (x # y # ys) = x @ sep @ join sep (y # ys)"

text \<open>\<^verbatim>\<open>String(v)\<close>, as a template literal applies it to an interpolated value.\<close>

fun ToString :: "jsval \<Rightarrow> string" where
  "ToString JUndefined = ''undefined''"
| "ToString JNull = ''null''"
| "ToString (JBool b) = (if b then ''true'' else ''false'')"
| "ToString (JNum n) = (if n < 0 then ''-'' @ digits (nat (- n)) else digits (nat n))"
| "ToString (JStr s) = s"
| "ToString (JArr xs) =
     join '','' (map (\<lambda>x. case x of JUndefined \<Rightarrow> [] | JNull \<Rightarrow> [] | _ \<Rightarrow> ToString x) xs)"
| "ToString (JObj fs) = ''[object Object]''"

fun truthy :: "jsval \<Rightarrow> bool" where
  "truthy JUndefined = False"
| "truthy JNull = False"
| "truthy (JBool b) = b"
| "truthy (JNum n) = (n \<noteq> 0)"
| "truthy (JStr s) = (s \<noteq> [])"
| "truthy (JArr xs) = True"
| "truthy (JObj fs) = True"

fun nullish :: "jsval \<Rightarrow> bool" where
  "nullish JUndefined = True"
| "nullish JNull = True"
| "nullish v = False"

text \<open>\<^verbatim>\<open>a || b\<close>\<close>

definition or_else :: "jsval \<Rightarrow> jsval \<Rightarrow> jsval" where
  "or_else a b = (if truthy a then a else b)"

text \<open>
  \<^verbatim>\<open>v.k\<close> for the property names the program reads (\<^verbatim>\<open>success\<close>, \<^verbatim>\<open>message\<close>,
  \<^verbatim>\<open>data\<close>, \<^verbatim>\<open>length\<close> and the record fields): reading a property of
  \<^verbatim>\<open>undefined\<close> or \<^verbatim>\<open>null\<close> throws, a missing property is \<^verbatim>\<open>undefined\<close>.
\<close>

fun get_prop :: "jsval \<Rightarrow> string \<Rightarrow> js_error + jsval" where
  "get_prop JUndefined k =
     Inl (TypeError (''Cannot read properties of undefined (reading '' @ k @ '')''))"
| "get_prop JNull k = Inl (TypeError (''Cannot read properties of null (reading '' @ k @ '')''))"
| "get_prop (JObj fs) k = Inr (case map_of fs k of None \<Rightarrow> JUndefined | Some v \<Rightarrow> v)"
| "get_prop (JArr xs) k = Inr (if k = ''length'' then JNum (int (length xs)) else JUndefined)"
| "get_prop (JStr s) k = Inr (if k = ''length'' then JNum (int (length s)) else JUndefined)"
| "get_prop v k = Inr JUndefined"

text \<open>\<^verbatim>\<open>v?.k\<close>\<close>

definition opt_prop :: "jsval \<Rightarrow> string \<Rightarrow> js_error + jsval" where
  "opt_prop v k = (if nullish v then Inr JUndefined else get_prop v k)"

text \<open>\<^verbatim>\<open>s.split(c)\<close> for a one-character separator.\<close>

fun split :: "char \<Rightarrow> string \<Rightarrow> string list" where
  "split c [] = [[]]"
| "split c (x # xs) =
     (if x = c then [] # split c xs
      else (case split c xs of [] \<Rightarrow> [[x]] | w # ws \<Rightarrow> (x # w) # ws))"

text \<open>
  \<^verbatim>\<open>xs.map(f)\<close>, \<^verbatim>\<open>xs.filter(f)\<close> on the elements of an array, with a callback that may
  throw: the first exception ends the traversal. The callback of \<open>array_map\<close> is handed
  the element itself, so it returns the element as it leaves it beside its result.
\<close>

fun array_map :: "('a \<Rightarrow> js_error + ('b \<times> 'a)) \<Rightarrow> 'a list \<Rightarrow> js_error + ('b list \<times> 'a list)" where
  "array_map f [] = Inr ([], [])"
| "array_map f (x # xs) =
     (case f x of
        Inl e \<Rightarrow> Inl e
      | Inr (y, x') \<Rightarrow>
          (case array_map f xs of
             Inl e \<Rightarrow> Inl e
           | Inr (ys, xs') \<Rightarrow> Inr (y # ys, x' # xs')))"

fun array_filter :: "('a \<Rightarrow> js_error + bool) \<Rightarrow> 'a list \<Rightarrow> js_error + 'a list" where
  "array_filter f [] = Inr []"
| "array_filter f (x # xs) =
     (case f x of
        Inl e \<Rightarrow> Inl e
      | Inr b \<Rightarrow>
          (case array_filter f xs of
             Inl e \<Rightarrow> Inl e
           | Inr ys \<Rightarrow> Inr (if b then x # ys else ys)))"

text \<open>
  Calling \<^verbatim>\<open>v.map\<close> or \<^verbatim>\<open>v.filter\<close>: only an array has the method; no JSON value is
  callable, so on anything else the call is a \<^verbatim>\<open>TypeError\<close>.
\<close>

definition elems_for :: "string \<Rightarrow> jsval \<Rightarrow> js_error + jsval list" where
  "elems_for method v =
     (case v of
        JArr xs \<Rightarrow> Inr xs
      | JUndefined \<Rightarrow> res_bind (get_prop v method) (\<lambda>_. Inr [])
      | JNull \<Rightarrow> res_bind (get_prop v method) (\<lambda>_. Inr [])
      | _ \<Rightarrow> Inl (TypeError (method @ '' is not a function'')))"

section \<open>Calendar dates\<close>

text \<open>
  A \<^verbatim>\<open>Date\<close> holds a time value: milliseconds since the epoch, or no time at all (an
  invalid date). \<^verbatim>\<open>d.toISOString().split('T')[0]\<close> is the calendar date of the time
  value in UTC, printed as \<^verbatim>\<open>YYYY-MM-DD\<close> (six signed year digits outside 0..9999).
\<close>

definition msPerDay :: int where
  "msPerDay = 86400000"

definition civil_from_days :: "int \<Rightarrow> int \<times> int \<times> int" where
  "civil_from_days z0 =
     (let z = z0 + 719468;
          era = z div 146097;
          doe = z - era * 146097;
          yoe = (doe - doe div 1460 + doe div 36524 - doe div 146096) div 365;
          y = yoe + era * 400;
          doy = doe - (365 * yoe + yoe div 4 - yoe div 100);
          mp = (5 * doy + 2) div 153;
          d = doy - (153 * mp + 2) div 5 + 1;
          m = (if mp < 10 then mp + 3 else mp - 9)
      in ((if m \<le> 2 then y + 1 else y), m, d))"

definition pad :: "nat \<Rightarrow> string \<Rightarrow> string" where
  "pad w s = replicate (w - length s) (CHR ''0'') @ s"

definition ymd_string :: "int \<times> int \<times> int \<Rightarrow> string" where
  "ymd_string c =
     (case c of (y, m, d) \<Rightarrow>
        (if 0 \<le> y \<and> y \<le> 9999 then pad 4 (digits (nat y))
         else (if y < 0 then ''-'' else ''+'') @ pad 6 (digits (nat \<bar>y\<bar>)))
        @ ''-'' @ pad 2 (digits (nat m)) @ ''-'' @ pad 2 (digits (nat d)))"

definition iso_date :: "int \<Rightarrow> string" where
  "iso_date t = ymd_string (civil_from_days (t div msPerDay))"

section \<open>The platform: network, URL and date parsing\<close>

text \<open>
  What the browser and the remote service answer is not in the repository, so it is a
  parameter of every operation. \<open>API_URL\<close> is the endpoint constant of line 2 (the
  repository ships a placeholder to be replaced on deployment) and \<open>URL_error\<close> tells
  whether \<^verbatim>\<open>new URL(s)\<close> throws, and with which message. \<open>fetch\<close> gives the outcome of
  the request that carries the given query parameters: the promise is rejected, or a
  response arrives with a status and a body that is JSON or is not. \<open>Date_parse\<close>
  is \<^verbatim>\<open>Date.parse\<close> on strings, \<open>LocalTZA\<close> the offset of local time from UTC at an
  instant, \<open>toLocaleString\<close> the local rendering of an instant.
\<close>

datatype response_body = Malformed string | Parsed jsval

datatype outcome = Rejected string | Responded nat response_body

record platform =
  API_URL :: string
  URL_error :: "string \<Rightarrow> string option"
  fetch :: "(string \<times> string) list \<Rightarrow> outcome"
  Date_parse :: "string \<Rightarrow> int option"
  LocalTZA :: "int \<Rightarrow> int"
  toLocaleString :: "int \<Rightarrow> string"

text \<open>\<^verbatim>\<open>response.ok\<close>\<close>

definition response_ok :: "nat \<Rightarrow> bool" where
  "response_ok status = (200 \<le> status \<and> status \<le> 299)"

text \<open>\<^verbatim>\<open>new Error(v)\<close>: no message when \<open>v\<close> is \<^verbatim>\<open>undefined\<close>.\<close>

definition new_Error :: "jsval \<Rightarrow> js_error" where
  "new_Error v = Error (case v of JUndefined \<Rightarrow> [] | _ \<Rightarrow> ToString v)"

text \<open>
  \<^verbatim>\<open>new Date(v)\<close>: the time value, \<open>None\<close> for an invalid date. Time values beyond
  \<open>8.64e15\<close> milliseconds either side of the epoch are invalid.
\<close>

definition TimeClip :: "int \<Rightarrow> int option" where
  "TimeClip t = (if \<bar>t\<bar> \<le> 8640000000000000 then Some t else None)"

definition new_Date :: "platform \<Rightarrow> jsval \<Rightarrow> int option" where
  "new_Date p v =
     (case v of
        JUndefined \<Rightarrow> None
      | JNull \<Rightarrow> Some 0
      | JBool b \<Rightarrow> Some (if b then 1 else 0)
      | JNum n \<Rightarrow> TimeClip n
      | JStr s \<Rightarrow> Option.bind (Date_parse p s) TimeClip
      | _ \<Rightarrow> Option.bind (Date_parse p (ToString v)) TimeClip)"

definition toISOString_date :: "int option \<Rightarrow> js_error + string" where
  "toISOString_date d =
     (case d of None \<Rightarrow> Inl (RangeError ''Invalid time value'') | Some t \<Rightarrow> Inr (iso_date t))"

section \<open>The page\<close>

text \<open>
  The page holds the render targets by element id, each with the content last written to
  it (markup through \<^verbatim>\<open>innerHTML\<close>, plain text through \<^verbatim>\<open>textContent\<close>), the toasts
  appended to \<^verbatim>\<open>document.body\<close> in order, and the pending \<^verbatim>\<open>setTimeout\<close> callbacks,
  each of which is \<^verbatim>\<open>toast.remove()\<close> for one toast and is kept with the time left until
  it fires. A toast is identified by a number, drawn from a counter. A render target may
  be missing from the page; \<^verbatim>\<open>document.body\<close> is always there, since the controllers are
  created when the document has been parsed. Inline styles and the console are not part
  of the model.
\<close>

datatype content = Markup string | Text string

record toast =
  tid :: nat
  className :: string
  shown :: content

record page =
  targets :: "string \<rightharpoonup> content"
  toasts :: "toast list"
  timers :: "(nat \<times> nat) list"
  fresh :: nat

text \<open>
  A statement of the program runs on the page and ends normally with a value or throws;
  the page is kept either way, so that what was written before a throw stays written.
\<close>

type_synonym 'a io = "page \<Rightarrow> (js_error + 'a) \<times> page"

definition io_return :: "'a \<Rightarrow> 'a io" where
  "io_return x = (\<lambda>d. (Inr x, d))"

definition io_lift :: "js_error + 'a \<Rightarrow> 'a io" where
  "io_lift r = (\<lambda>d. (r, d))"

definition io_modify :: "(page \<Rightarrow> page) \<Rightarrow> unit io" where
  "io_modify f = (\<lambda>d. (Inr (), f d))"

definition io_bind :: "'a io \<Rightarrow> ('a \<Rightarrow> 'b io) \<Rightarrow> 'b io" where
  "io_bind m f = (\<lambda>d. case m d of (Inl e, d') \<Rightarrow> (Inl e, d') | (Inr x, d') \<Rightarrow> f x d')"

definition try_catch :: "'a io \<Rightarrow> (js_error \<Rightarrow> 'a io) \<Rightarrow> 'a io" where
  "try_catch m h = (\<lambda>d. case m d of (Inl e, d') \<Rightarrow> h e d' | (Inr x, d') \<Rightarrow> (Inr x, d'))"

text \<open>
  \<^verbatim>\<open>Promise.all\<close> over calls that have all been started: every one runs to its end,
  and the whole is rejected with the first rejection, if there is one. The calls touch
  the page in the order they were issued.
\<close>

fun promise_all :: "'a io list \<Rightarrow> 'a list io" where
  "promise_all [] = io_return []"
| "promise_all (m # ms) =
     (\<lambda>d. case m d of
        (r, d') \<Rightarrow>
          (case promise_all ms d' of
             (rs, d'') \<Rightarrow>
               (case r of
                  Inl e \<Rightarrow> (Inl e, d'')
                | Inr x \<Rightarrow> (case rs of Inl e \<Rightarrow> (Inl e, d'') | Inr xs \<Rightarrow> (Inr (x # xs), d'')))))"

text \<open>\<^verbatim>\<open>const [a, b, c, d] = xs\<close> takes the elements by position.\<close>

definition item_at :: "jsval list \<Rightarrow> nat \<Rightarrow> jsval" where
  "item_at xs i = (if i < length xs then xs ! i else JUndefined)"

text \<open>
  \<^verbatim>\<open>document.getElementById(id)\<close> gives the element (here: its id) or \<^verbatim>\<open>null\<close>;
  assigning to a property of \<^verbatim>\<open>null\<close> throws.
\<close>

definition getElementById :: "string \<Rightarrow> page \<Rightarrow> string option" where
  "getElementById i d = (case targets d i of None \<Rightarrow> None | Some c \<Rightarrow> Some i)"

definition set_innerHTML :: "string option \<Rightarrow> string \<Rightarrow> unit io" where
  "set_innerHTML el html =
     (case el of
        None \<Rightarrow> io_lift (Inl (TypeError ''Cannot set properties of null (setting innerHTML)''))
      | Some i \<Rightarrow> io_modify (\<lambda>d. d\<lparr>targets := (targets d)(i \<mapsto> Markup html)\<rparr>))"

definition set_textContent :: "string option \<Rightarrow> jsval \<Rightarrow> unit io" where
  "set_textContent el v =
     (case el of
        None \<Rightarrow> io_lift (Inl (TypeError ''Cannot set properties of null (setting textContent)''))
      | Some i \<Rightarrow>
          io_modify (\<lambda>d. d\<lparr>targets := (targets d)(i \<mapsto> Text (if nullish v then [] else ToString v))\<rparr>))"

text \<open>
  \<^verbatim>\<open>document.body.appendChild(toast)\<close> for a newly created element,
  \<^verbatim>\<open>setTimeout(() => toast.remove(), delay)\<close> and \<^verbatim>\<open>toast.remove()\<close> itself, which
  does nothing on an element that is no longer in the document.
\<close>

definition appendChild :: "string \<Rightarrow> content \<Rightarrow> page \<Rightarrow> page" where
  "appendChild cls c d =
     d\<lparr>toasts := toasts d @ [\<lparr>tid = fresh d, className = cls, shown = c\<rparr>],
       fresh := Suc (fresh d)\<rparr>"

definition setTimeout_remove :: "nat \<Rightarrow> nat \<Rightarrow> page \<Rightarrow> page" where
  "setTimeout_remove i delay d = d\<lparr>timers := timers d @ [(delay, i)]\<rparr>"


section \<open>HospitalApp: the base controller\<close>

definition nl :: string where
  "nl = [CHR 0x0A]"

definition sp :: "nat \<Rightarrow> string" where
  "sp n = replicate n (CHR '' '')"

text \<open>The template literal of \<^verbatim>\<open>showError\<close> (lines 69 to 73), line breaks and indentation included.\<close>

definition error_toast_html :: "string \<Rightarrow> string" where
  \<open>error_toast_html message =
     nl @ sp 12 @ ''<i class="fas fa-exclamation-circle"></i>'' @
     nl @ sp 12 @ ''<span>'' @ message @ ''</span>'' @
     nl @ sp 12 @ ''<button onclick="this.parentElement.remove()">&times;</button>'' @
     nl @ sp 8\<close>

definition showError :: "string \<Rightarrow> page \<Rightarrow> page" where
  "showError message d =
     setTimeout_remove (fresh d) 5000
       (appendChild ''error-toast'' (Markup (error_toast_html message)) d)"

text \<open>
  The \<^verbatim>\<open>try\<close> block of \<^verbatim>\<open>fetchFromAPI\<close> (lines 46 to 57). It does not touch the page.
  The \<^verbatim>\<open>endpoint\<close> argument is not used by the source either.
\<close>

definition fetchFromAPI_try :: "platform \<Rightarrow> (string \<times> string) list \<Rightarrow> js_error + jsval" where
  "fetchFromAPI_try p params =
     (case URL_error p (API_URL p) of
        Some m \<Rightarrow> Inl (TypeError m)
      | None \<Rightarrow>
          (case fetch p params of
             Rejected m \<Rightarrow> Inl (TypeError m)
           | Responded status b \<Rightarrow>
               if \<not> response_ok status
               then Inl (Error (''HTTP error! status: '' @ digits status))
               else
                 (case b of
                    Malformed m \<Rightarrow> Inl (SyntaxError m)
                  | Parsed data \<Rightarrow>
                      res_bind (get_prop data ''success'') (\<lambda>success.
                        if \<not> truthy success
                        then res_bind (get_prop data ''message'') (\<lambda>m. Inl (new_Error m))
                        else get_prop data ''data''))))"

definition fetchFromAPI :: "platform \<Rightarrow> string \<Rightarrow> (string \<times> string) list \<Rightarrow> jsval io" where
  "fetchFromAPI p endpoint params =
     try_catch (io_lift (fetchFromAPI_try p params))
       (\<lambda>error.
          io_bind (io_modify (showError (''Failed to load data: '' @ message_of error)))
            (\<lambda>_. io_return (JArr [])))"

definition loading_html :: string where
  \<open>loading_html = ''<div class="loading">Loading...</div>''\<close>

definition showLoading :: "string option \<Rightarrow> unit io" where
  "showLoading container =
     (if container \<noteq> None then set_innerHTML container loading_html else io_return ())"

definition updateLastUpdated :: "platform \<Rightarrow> int \<Rightarrow> unit io" where
  "updateLastUpdated p now =
     (\<lambda>d. let lastUpdated = getElementById ''last-updated'' d in
        (if lastUpdated \<noteq> None
         then set_textContent lastUpdated (JStr (toLocaleString p now))
         else io_return ()) d)"

text \<open>\<^verbatim>\<open>loadData\<close> of the base class only logs.\<close>

definition HospitalApp_loadData :: "unit io" where
  "HospitalApp_loadData = io_return ()"

section \<open>HomePage: the dashboard controller\<close>

subsection \<open>loadStats\<close>

text \<open>\<^verbatim>\<open>document.getElementById(id).textContent = v?.length || 0\<close>\<close>

definition write_count :: "string \<Rightarrow> jsval \<Rightarrow> unit io" where
  "write_count i v =
     (\<lambda>d. io_bind (io_lift (opt_prop v ''length''))
        (\<lambda>n. set_textContent (getElementById i d) (or_else n (JNum 0))) d)"

text \<open>\<^verbatim>\<open>notifications?.filter(n => n.Status === 'Pending').length || 0\<close>\<close>

definition is_pending :: "jsval \<Rightarrow> js_error + bool" where
  "is_pending n = res_bind (get_prop n ''Status'') (\<lambda>s. Inr (s = JStr ''Pending''))"

definition pending_count :: "jsval \<Rightarrow> js_error + jsval" where
  "pending_count notifications =
     (if nullish notifications then Inr (or_else JUndefined (JNum 0))
      else
        res_bind (elems_for ''filter'' notifications) (\<lambda>ns.
        res_bind (array_filter is_pending ns) (\<lambda>pending.
          Inr (or_else (JNum (int (length pending))) (JNum 0)))))"

definition loadStats_render :: "jsval \<Rightarrow> jsval \<Rightarrow> jsval \<Rightarrow> jsval \<Rightarrow> unit io" where
  "loadStats_render doctors clinics roster notifications =
     io_bind (write_count ''doctor-count'' doctors) (\<lambda>_.
     io_bind (write_count ''clinic-count'' clinics) (\<lambda>_.
     io_bind (write_count ''roster-count'' roster) (\<lambda>_.
     io_bind (io_lift (pending_count notifications)) (\<lambda>pendingNotifications.
       (\<lambda>d. set_textContent (getElementById ''notification-count'' d) pendingNotifications d)))))"

definition loadStats :: "platform \<Rightarrow> int \<Rightarrow> unit io" where
  "loadStats p now =
     try_catch
       (io_bind
          (promise_all
             [fetchFromAPI p [] [(''operation'', ''getDoctors'')],
              fetchFromAPI p [] [(''operation'', ''getClinics'')],
              fetchFromAPI p [] [(''operation'', ''getRoster''), (''date'', iso_date now)],
              fetchFromAPI p [] [(''sheet'', ''Notifications'')]])
          (\<lambda>rs. loadStats_render (item_at rs 0) (item_at rs 1) (item_at rs 2) (item_at rs 3)))
       (\<lambda>error. io_return ())"

subsection \<open>loadTodaySchedule\<close>

text \<open>The template literal of lines 217 to 227, with its four interpolations.\<close>

definition schedule_item_html :: "string \<Rightarrow> string \<Rightarrow> string \<Rightarrow> string \<Rightarrow> string" where
  \<open>schedule_item_html title subtitle badge_class badge_text =
     nl @ sp 16 @ ''<div class="schedule-item">'' @
     nl @ sp 20 @ ''<div class="schedule-info">'' @
     nl @ sp 24 @ ''<h4>'' @ title @ ''</h4>'' @
     nl @ sp 24 @ ''<p>'' @ subtitle @ ''</p>'' @
     nl @ sp 20 @ ''</div>'' @
     nl @ sp 20 @ ''<span class="status-badge '' @ badge_class @ ''">'' @
     nl @ sp 24 @ badge_text @
     nl @ sp 20 @ ''</span>'' @
     nl @ sp 16 @ ''</div>'' @
     nl @ sp 12\<close>

text \<open>\<^verbatim>\<open>item.Consultants?.split(',').slice(0, 2).join(', ')\<close>\<close>

definition consultant_names :: "jsval \<Rightarrow> js_error + jsval" where
  "consultant_names consultants =
     (if nullish consultants then Inr JUndefined
      else
        (case consultants of
           JStr s \<Rightarrow> Inr (JStr (join '', '' (take 2 (split (CHR '','') s))))
         | _ \<Rightarrow> Inl (TypeError ''item.Consultants.split is not a function'')))"

text \<open>
  The callback of \<^verbatim>\<open>schedule.map\<close>: the markup of one entry, and the entry as the
  callback leaves it. The marker \<^verbatim>\<open>...\<close> is literal text of the template.
\<close>

definition schedule_item :: "jsval \<Rightarrow> js_error + (string \<times> jsval)" where
  "schedule_item item =
     res_bind (get_prop item ''Clinic'') (\<lambda>clinic.
     res_bind (get_prop item ''Consultants'') (\<lambda>consultants.
     res_bind (consultant_names consultants) (\<lambda>names.
     res_bind (get_prop item ''Status'') (\<lambda>status.
       Inr (schedule_item_html
              (ToString clinic)
              (ToString names @ ''...'')
              (if status = JStr ''Sent'' then ''badge-sent'' else ''badge-pending'')
              (ToString (or_else status (JStr ''Pending''))),
            item)))))"

text \<open>\<^verbatim>\<open>schedule.map(item => ...).join('')\<close>: the rendering pass over the roster.\<close>

definition render_schedule :: "jsval \<Rightarrow> js_error + (string \<times> jsval list)" where
  "render_schedule schedule =
     res_bind (elems_for ''map'' schedule) (\<lambda>items.
     res_bind (array_map schedule_item items) (\<lambda>r.
       Inr (concat (fst r), snd r)))"

definition no_schedule_html :: string where
  \<open>no_schedule_html = ''<div class="no-data">No schedule for today</div>''\<close>

definition schedule_error_html :: string where
  \<open>schedule_error_html = ''<div class="error">Failed to load schedule</div>''\<close>

definition loadTodaySchedule :: "platform \<Rightarrow> int \<Rightarrow> unit io" where
  "loadTodaySchedule p now =
     (\<lambda>d. let container = getElementById ''today-schedule'' d in
        io_bind (showLoading container) (\<lambda>_.
          try_catch
            (io_bind
               (fetchFromAPI p [] [(''operation'', ''getRoster''), (''date'', iso_date now)])
               (\<lambda>schedule.
                  io_bind (io_lift (get_prop schedule ''length'')) (\<lambda>n.
                    if n = JNum 0 then set_innerHTML container no_schedule_html
                    else
                      io_bind (io_lift (render_schedule schedule)) (\<lambda>r.
                        set_innerHTML container (fst r)))))
            (\<lambda>error. set_innerHTML container schedule_error_html)) d)"

subsection \<open>loadOnCallToday\<close>

text \<open>The template literal of lines 251 to 258.\<close>

definition call_item_html :: "string \<Rightarrow> string \<Rightarrow> string \<Rightarrow> string" where
  \<open>call_item_html consultant senior registrar =
     nl @ sp 16 @ ''<div class="call-item">'' @
     nl @ sp 20 @ ''<div class="call-info">'' @
     nl @ sp 24 @ ''<h4>'' @ consultant @ ''</h4>'' @
     nl @ sp 24 @ ''<p>Team: '' @ senior @ '', '' @ registrar @ ''</p>'' @
     nl @ sp 20 @ ''</div>'' @
     nl @ sp 16 @ ''</div>'' @
     nl @ sp 12\<close>

text \<open>
  The callback of \<^verbatim>\<open>callRoster.filter\<close> (lines 241 to 244):
  \<^verbatim>\<open>new Date(item.Date).toISOString().split('T')[0] === today\<close>.
\<close>

definition is_today :: "platform \<Rightarrow> string \<Rightarrow> jsval \<Rightarrow> js_error + bool" where
  "is_today p today item =
     res_bind (get_prop item ''Date'') (\<lambda>v.
     res_bind (toISOString_date (new_Date p v)) (\<lambda>itemDate.
       Inr (itemDate = today)))"

definition call_item :: "jsval \<Rightarrow> js_error + (string \<times> jsval)" where
  "call_item item =
     res_bind (get_prop item ''ConsultantOnCall'') (\<lambda>consultant.
     res_bind (get_prop item ''SeniorRegistrarOnCall'') (\<lambda>senior.
     res_bind (get_prop item ''RegistrarOnCall'') (\<lambda>registrar.
       Inr (call_item_html (ToString consultant) (ToString senior) (ToString registrar), item))))"

definition render_on_call :: "jsval list \<Rightarrow> js_error + (string \<times> jsval list)" where
  "render_on_call todayOnCall =
     res_bind (array_map call_item todayOnCall) (\<lambda>r. Inr (concat (fst r), snd r))"

definition no_on_call_html :: string where
  \<open>no_on_call_html = ''<div class="no-data">No on-call duty today</div>''\<close>

definition on_call_error_html :: string where
  \<open>on_call_error_html = ''<div class="error">Failed to load on-call data</div>''\<close>

definition loadOnCallToday :: "platform \<Rightarrow> int \<Rightarrow> unit io" where
  "loadOnCallToday p now =
     (\<lambda>d. let container = getElementById ''on-call-today'' d in
        io_bind (showLoading container) (\<lambda>_.
          try_catch
            (io_bind (fetchFromAPI p [] [(''sheet'', ''CallRoster'')]) (\<lambda>callRoster.
               let today = iso_date now in
               io_bind (io_lift (res_bind (elems_for ''filter'' callRoster)
                                   (array_filter (is_today p today)))) (\<lambda>todayOnCall.
                 if length todayOnCall = 0 then set_innerHTML container no_on_call_html
                 else
                   io_bind (io_lift (render_on_call todayOnCall)) (\<lambda>r.
                     set_innerHTML container (fst r)))))
            (\<lambda>error. set_innerHTML container on_call_error_html)) d)"

subsection \<open>loadData and the refresh action\<close>

text \<open>
  The three routines are started one after the other and awaited together. Each reads
  the clock when it builds its date, so each has its own instant.
\<close>

definition loadData :: "platform \<Rightarrow> int \<Rightarrow> int \<Rightarrow> int \<Rightarrow> unit io" where
  "loadData p t_stats t_schedule t_on_call =
     io_bind
       (promise_all [loadStats p t_stats, loadTodaySchedule p t_schedule, loadOnCallToday p t_on_call])
       (\<lambda>_. io_return ())"

datatype app = HospitalApp | HomePage

definition app_loadData :: "platform \<Rightarrow> app \<Rightarrow> int \<Rightarrow> int \<Rightarrow> int \<Rightarrow> unit io" where
  "app_loadData p a t1 t2 t3 =
     (case a of HospitalApp \<Rightarrow> HospitalApp_loadData | HomePage \<Rightarrow> loadData p t1 t2 t3)"

text \<open>The confirmation toast of \<^verbatim>\<open>refreshData\<close> (lines 272 to 285): plain text, no class.\<close>

definition refresh_toast :: "page \<Rightarrow> page" where
  "refresh_toast d =
     setTimeout_remove (fresh d) 3000
       (appendChild [] (Text ''Data refreshed successfully!'') d)"

text \<open>
  \<^verbatim>\<open>refreshData\<close> on the active controller \<^verbatim>\<open>window.currentApp\<close>, which the
  \<^verbatim>\<open>DOMContentLoaded\<close> handler has set.
\<close>

definition refreshData :: "platform \<Rightarrow> app \<Rightarrow> int \<Rightarrow> int \<Rightarrow> int \<Rightarrow> int \<Rightarrow> unit io" where
  "refreshData p a t1 t2 t3 t4 =
     io_bind (app_loadData p a t1 t2 t3) (\<lambda>_.
     io_bind (updateLastUpdated p t4) (\<lambda>_.
       io_modify refresh_toast))"

section \<open>Toasts over time\<close>









section \<open>Vocabulary of the statements\<close>

text \<open>
  A call fails when the endpoint constant is no URL, the request is rejected, the status
  is not a success status, the body is not JSON, or the body is not an envelope with a
  true \<^verbatim>\<open>success\<close> field.
\<close>

definition call_fails :: "platform \<Rightarrow> (string \<times> string) list \<Rightarrow> bool" where
  "call_fails p params =
     (URL_error p (API_URL p) \<noteq> None \<or>
      (case fetch p params of
         Rejected m \<Rightarrow> True
       | Responded status b \<Rightarrow>
           \<not> response_ok status \<or>
           (case b of
              Malformed m \<Rightarrow> True
            | Parsed data \<Rightarrow>
                (case get_prop data ''success'' of Inl e \<Rightarrow> True | Inr s \<Rightarrow> \<not> truthy s))))"

definition returns_sequence :: "js_error + jsval \<Rightarrow> bool" where
  "returns_sequence r = (case r of Inr (JArr xs) \<Rightarrow> True | _ \<Rightarrow> False)"

text \<open>A property of the page that an operation keeps.\<close>

definition preserves :: "(page \<Rightarrow> bool) \<Rightarrow> 'a io \<Rightarrow> bool" where
  "preserves P m = (\<forall>d. P d \<longrightarrow> P (snd (m d)))"

text \<open>The field of a record, \<^verbatim>\<open>undefined\<close> when it has none.\<close>

definition field :: "jsval \<Rightarrow> string \<Rightarrow> jsval" where
  "field v k = (case get_prop v k of Inl e \<Rightarrow> JUndefined | Inr x \<Rightarrow> x)"

text \<open>The markup of one on-call entry.\<close>

definition call_markup :: "jsval \<Rightarrow> string" where
  "call_markup item =
     call_item_html (ToString (field item ''ConsultantOnCall''))
       (ToString (field item ''SeniorRegistrarOnCall'')) (ToString (field item ''RegistrarOnCall''))"

text \<open>
  The calendar day of an entry's \<^verbatim>\<open>Date\<close>: in UTC as the ISO date string, and in local
  time as year, month and day.
\<close>

definition item_iso_date :: "platform \<Rightarrow> jsval \<Rightarrow> string option" where
  "item_iso_date p item =
     (case get_prop item ''Date'' of Inl e \<Rightarrow> None | Inr v \<Rightarrow> map_option iso_date (new_Date p v))"

definition local_day :: "platform \<Rightarrow> int \<Rightarrow> int \<times> int \<times> int" where
  "local_day p t = civil_from_days ((t + LocalTZA p t) div msPerDay)"

definition item_local_day :: "platform \<Rightarrow> jsval \<Rightarrow> (int \<times> int \<times> int) option" where
  "item_local_day p item =
     (case get_prop item ''Date'' of
        Inl e \<Rightarrow> None
      | Inr v \<Rightarrow> map_option (local_day p) (new_Date p v))"





section \<open>Concrete inputs\<close>

text \<open>
  A deployment whose endpoint is a valid URL and whose service gives the same answer to
  every request; it parses two date-only strings (which are UTC midnights) and keeps
  local time one hour ahead of UTC.
\<close>

definition ex_url :: string where
  "ex_url = ''https://script.example/exec''"

definition ex_platform :: "outcome \<Rightarrow> platform" where
  "ex_platform oc =
     \<lparr>API_URL = ex_url,
      URL_error = (\<lambda>u. if u = ex_url then None else Some ''Invalid URL''),
      fetch = (\<lambda>ps. oc),
      Date_parse = (\<lambda>s. if s = ''2024-01-02'' then Some 1704153600000
                         else if s = ''2024-01-03'' then Some 1704240000000 else None),
      LocalTZA = (\<lambda>t. 3600000),
      toLocaleString = (\<lambda>t. [])\<rparr>"

definition ok_envelope :: "jsval \<Rightarrow> outcome" where
  "ok_envelope v = Responded 200 (Parsed (JObj [(''success'', JBool True), (''data'', v)]))"

definition stats_targets :: "string \<rightharpoonup> content" where
  "stats_targets =
     [''doctor-count'' \<mapsto> Text [], ''clinic-count'' \<mapsto> Text [],
      ''roster-count'' \<mapsto> Text [], ''notification-count'' \<mapsto> Text []]"

definition home_page :: page where
  "home_page =
     \<lparr>targets = stats_targets(''today-schedule'' \<mapsto> Markup [], ''on-call-today'' \<mapsto> Markup [],
        ''last-updated'' \<mapsto> Text []),
      toasts = [], timers = [], fresh = 0\<rparr>"

definition page_without_schedule :: page where
  "page_without_schedule =
     \<lparr>targets = stats_targets(''on-call-today'' \<mapsto> Markup [], ''last-updated'' \<mapsto> Text []),
      toasts = [], timers = [], fresh = 0\<rparr>"

definition on_call_entry :: "string \<Rightarrow> string \<Rightarrow> jsval" where
  "on_call_entry date consultant =
     JObj [(''Date'', JStr date), (''ConsultantOnCall'', JStr consultant),
           (''SeniorRegistrarOnCall'', JStr ''Dr B''), (''RegistrarOnCall'', JStr ''Dr C'')]"

definition ent_entry :: jsval where
  "ent_entry =
     JObj [(''Clinic'', JStr ''ENT''), (''Consultants'', JStr ''A,B,C''), (''Status'', JStr ''Sent'')]"

definition bare_entry :: jsval where
  "bare_entry = JObj [(''Clinic'', JStr ''ENT''), (''Consultants'', JStr ''A'')]"

definition notification :: "string \<Rightarrow> jsval" where
  "notification status = JObj [(''Status'', JStr status)]"

section \<open>Basic facts\<close>

lemmas io_defs = io_bind_def io_return_def io_lift_def io_modify_def try_catch_def

lemmas ex_defs = ex_platform_def ex_url_def ok_envelope_def home_page_def stats_targets_def
  response_ok_def res_bind_def

lemma isl_get_prop: "isl (get_prop v k) \<longleftrightarrow> nullish v"
  by (cases v) auto

lemma get_prop_Inr_not_nullish: "get_prop v k = Inr x \<Longrightarrow> \<not> nullish v"
  using isl_get_prop [of v k] by simp

lemma get_prop_total: "\<not> nullish v \<Longrightarrow> \<exists>x. get_prop v k = Inr x"
  using isl_get_prop [of v k] by (cases "get_prop v k") auto

lemma opt_prop_total: "\<exists>n. opt_prop v k = Inr n"
  using get_prop_total [of v k] by (auto simp: opt_prop_def)

lemma array_filter_total:
  "(\<And>x. x \<in> set xs \<Longrightarrow> f x = Inr (g x)) \<Longrightarrow> array_filter f xs = Inr (filter g xs)"
  by (induction xs) simp_all

lemma array_map_total:
  "(\<And>x. x \<in> set xs \<Longrightarrow> f x = Inr (g x, x)) \<Longrightarrow> array_map f xs = Inr (map g xs, xs)"
  by (induction xs) simp_all

subsection \<open>Operations that keep a property of the page\<close>

lemma preserves_return: "preserves P (io_return x)"
  by (simp add: preserves_def io_return_def)

lemma preserves_lift: "preserves P (io_lift r)"
  by (simp add: preserves_def io_lift_def)

lemma preserves_bind:
  "preserves P m \<Longrightarrow> (\<And>x. preserves P (f x)) \<Longrightarrow> preserves P (io_bind m f)"
  unfolding preserves_def io_bind_def
  by (auto split: prod.splits sum.splits)

lemma preserves_try_catch:
  "preserves P m \<Longrightarrow> (\<And>e. preserves P (h e)) \<Longrightarrow> preserves P (try_catch m h)"
  unfolding preserves_def try_catch_def
  by (auto split: prod.splits sum.splits)

lemma snd_promise_all_Cons:
  "snd (promise_all (m # ms) d) = snd (promise_all ms (snd (m d)))"
  by (auto split: prod.splits sum.splits)

lemma fst_promise_all_reject:
  "fst (m d) = Inl e \<Longrightarrow> fst (promise_all (m # ms) d) = Inl e"
  by (auto split: prod.splits sum.splits)

lemma fst_promise_all_skip:
  "fst (m d) = Inr x \<Longrightarrow> fst (promise_all ms (snd (m d))) = Inl e \<Longrightarrow>
   fst (promise_all (m # ms) d) = Inl e"
  by (auto split: prod.splits sum.splits)

lemma fst_io_bind_Inl: "fst (m d) = Inl e \<Longrightarrow> fst (io_bind m f d) = Inl e"
  by (auto simp: io_bind_def split: prod.splits sum.splits)

lemma preserves_promise_all:
  "(\<And>m. m \<in> set ms \<Longrightarrow> preserves P m) \<Longrightarrow> preserves P (promise_all ms)"
proof (induction ms)
  case Nil
  show ?case by (simp add: preserves_return)
next
  case (Cons m ms)
  have m: "preserves P m" and ms: "preserves P (promise_all ms)"
    using Cons by simp_all
  show ?case
    unfolding preserves_def
  proof (intro allI impI)
    fix d assume "P d"
    then have "P (snd (m d))" using m by (simp add: preserves_def)
    then have "P (snd (promise_all ms (snd (m d))))" using ms by (simp add: preserves_def)
    then show "P (snd (promise_all (m # ms) d))"
      by (simp only: snd_promise_all_Cons)
  qed
qed

subsection \<open>The DOM operations\<close>

lemma getElementById_cases: "getElementById i d = None \<or> getElementById i d = Some i"
  by (simp add: getElementById_def split: option.splits)

lemma getElementById_present: "targets d i \<noteq> None \<Longrightarrow> getElementById i d = Some i"
  by (auto simp add: getElementById_def split: option.splits)

lemma getElementById_absent: "targets d i = None \<Longrightarrow> getElementById i d = None"
  by (simp add: getElementById_def)

lemma set_innerHTML_None:
  "set_innerHTML None h d =
     (Inl (TypeError ''Cannot set properties of null (setting innerHTML)''), d)"
  by (simp add: set_innerHTML_def io_lift_def)

lemma set_innerHTML_Some:
  "set_innerHTML (Some i) h d = (Inr (), d\<lparr>targets := (targets d)(i \<mapsto> Markup h)\<rparr>)"
  by (simp add: set_innerHTML_def io_modify_def)

lemma preserves_set_textContent:
  "el \<noteq> Some i \<Longrightarrow> preserves (\<lambda>d. Q (targets d i)) (set_textContent el v)"
  by (cases el) (auto simp: preserves_def set_textContent_def io_lift_def io_modify_def)

lemma preserves_set_innerHTML:
  "el \<noteq> Some i \<Longrightarrow> preserves (\<lambda>d. Q (targets d i)) (set_innerHTML el h)"
  by (cases el) (auto simp: preserves_def set_innerHTML_None set_innerHTML_Some)

lemma preserves_if:
  "preserves P a \<Longrightarrow> preserves P b \<Longrightarrow> preserves P (if c then a else b)"
  by simp

lemma snd_io_bind_return: "snd (io_bind m (\<lambda>_. io_return x) d) = snd (m d)"
  by (simp add: io_bind_def io_return_def split: prod.splits sum.splits)

lemma showLoading_Some:
  "showLoading (Some i) d = (Inr (), d\<lparr>targets := (targets d)(i \<mapsto> Markup loading_html)\<rparr>)"
  by (simp add: showLoading_def set_innerHTML_Some)

lemma toasts_showError:
  "toasts (showError m d) =
     toasts d @ [\<lparr>tid = fresh d, className = ''error-toast'', shown = Markup (error_toast_html m)\<rparr>]"
  by (simp add: showError_def setTimeout_remove_def appendChild_def)

subsection \<open>fetchFromAPI\<close>

lemma fetchFromAPI_eq:
  "fetchFromAPI p ep ps d =
     (case fetchFromAPI_try p ps of
        Inr v \<Rightarrow> (Inr v, d)
      | Inl e \<Rightarrow> (Inr (JArr []), showError (''Failed to load data: '' @ message_of e) d))"
  by (simp add: fetchFromAPI_def try_catch_def io_lift_def io_bind_def io_modify_def io_return_def
      split: sum.splits)

lemma call_fails_iff: "call_fails p ps \<longleftrightarrow> isl (fetchFromAPI_try p ps)"
  unfolding call_fails_def fetchFromAPI_try_def res_bind_def
  by (auto split: option.splits outcome.splits response_body.splits sum.splits
      dest!: get_prop_Inr_not_nullish simp: isl_get_prop)

lemma fst_fetchFromAPI:
  "fst (fetchFromAPI p ep ps d) =
     Inr (case fetchFromAPI_try p ps of Inr v \<Rightarrow> v | Inl e \<Rightarrow> JArr [])"
  by (simp add: fetchFromAPI_eq split: sum.splits)

lemma targets_fetchFromAPI: "targets (snd (fetchFromAPI p ep ps d)) = targets d"
  by (simp add: fetchFromAPI_eq showError_def setTimeout_remove_def appendChild_def
      split: sum.splits)

lemma preserves_fetchFromAPI: "preserves (\<lambda>d. Q (targets d)) (fetchFromAPI p ep ps)"
  by (simp add: preserves_def targets_fetchFromAPI)

lemma fetchFromAPI_again:
  assumes "fst (fetchFromAPI p ep ps d) = Inr v"
  shows "\<exists>d''. fetchFromAPI p ep ps d' = (Inr v, d'') \<and> targets d'' = targets d'"
proof -
  have "fst (fetchFromAPI p ep ps d') = Inr v"
    using assms by (simp add: fst_fetchFromAPI)
  then show ?thesis
    using targets_fetchFromAPI [of p ep ps d'] by (cases "fetchFromAPI p ep ps d'") simp
qed

lemma promise_all_fetches:
  "\<exists>d'. promise_all (map (fetchFromAPI p ep) pss) d =
      (Inr (map (\<lambda>ps. case fetchFromAPI_try p ps of Inr v \<Rightarrow> v | Inl e \<Rightarrow> JArr []) pss), d') \<and>
      targets d' = targets d"
proof (induction pss arbitrary: d)
  case Nil
  show ?case by (simp add: io_return_def)
next
  case (Cons ps pss)
  obtain d1 where 1: "fetchFromAPI p ep ps d =
      (Inr (case fetchFromAPI_try p ps of Inr v \<Rightarrow> v | Inl e \<Rightarrow> JArr []), d1)"
      "targets d1 = targets d"
    using fst_fetchFromAPI [of p ep ps d] targets_fetchFromAPI [of p ep ps d]
    by (cases "fetchFromAPI p ep ps d") simp
  from Cons [of d1] 1 show ?case by auto
qed

subsection \<open>loadStats\<close>

lemma preserves_write_count:
  assumes "i \<noteq> j"
  shows "preserves (\<lambda>d. Q (targets d i)) (write_count j v)"
  unfolding preserves_def
proof (intro allI impI)
  fix d :: page
  assume q: "Q (targets d i)"
  have "getElementById j d \<noteq> Some i"
    using getElementById_cases [of j d] assms by auto
  then have "preserves (\<lambda>d. Q (targets d i)) (io_bind (io_lift (opt_prop v ''length''))
        (\<lambda>n. set_textContent (getElementById j d) (or_else n (JNum 0))))"
    by (intro preserves_bind preserves_lift preserves_set_textContent)
  then show "Q (targets (snd (write_count j v d)) i)"
    using q by (simp add: write_count_def preserves_def)
qed

lemma preserves_loadStats:
  assumes "i \<notin> {''doctor-count'', ''clinic-count'', ''roster-count'', ''notification-count''}"
  shows "preserves (\<lambda>d. Q (targets d i)) (loadStats p now)"
proof -
  have last: "preserves (\<lambda>d. Q (targets d i))
      (\<lambda>d. set_textContent (getElementById ''notification-count'' d) v d)" for v
    unfolding preserves_def
  proof (intro allI impI)
    fix d :: page
    assume q: "Q (targets d i)"
    have "getElementById ''notification-count'' d \<noteq> Some i"
      using getElementById_cases [of "''notification-count''" d] assms by auto
    then have "preserves (\<lambda>d. Q (targets d i))
        (set_textContent (getElementById ''notification-count'' d) v)"
      by (rule preserves_set_textContent)
    then show "Q (targets (snd (set_textContent (getElementById ''notification-count'' d) v d)) i)"
      using q by (simp add: preserves_def)
  qed
  have "preserves (\<lambda>d. Q (targets d i)) (loadStats_render a b c n)" for a b c n
    unfolding loadStats_render_def using assms
    by (intro preserves_bind preserves_write_count preserves_lift last) auto
  then show ?thesis
    unfolding loadStats_def
    by (intro preserves_try_catch preserves_bind preserves_promise_all preserves_return)
       (auto intro: preserves_fetchFromAPI)
qed

lemma fst_loadStats: "fst (loadStats p now d) = Inr ()"
  by (simp add: loadStats_def io_defs split: prod.splits sum.splits)

subsection \<open>loadTodaySchedule\<close>

lemma loadTodaySchedule_absent:
  assumes "targets d ''today-schedule'' = None"
  shows "fst (loadTodaySchedule p now d) =
    Inl (TypeError ''Cannot set properties of null (setting innerHTML)'')"
proof -
  have c: "getElementById ''today-schedule'' d = None"
    using assms by (rule getElementById_absent)
  obtain v d' where f:
    "fetchFromAPI p [] [(''operation'', ''getRoster''), (''date'', iso_date now)] d = (Inr v, d')"
    using fst_fetchFromAPI [of p "[]" _ d] by (metis prod.collapse)
  show ?thesis
    unfolding loadTodaySchedule_def Let_def c showLoading_def
    by (simp add: io_defs f set_innerHTML_None split: sum.splits prod.splits)
qed

lemma loadTodaySchedule_present:
  assumes t: "targets d ''today-schedule'' \<noteq> None"
    and f: "fst (fetchFromAPI p [] [(''operation'', ''getRoster''), (''date'', iso_date now)] d) = Inr v"
  shows "fst (loadTodaySchedule p now d) = Inr () \<and>
    targets (snd (loadTodaySchedule p now d)) ''today-schedule'' =
      Some (Markup
        (case get_prop v ''length'' of
           Inl e \<Rightarrow> schedule_error_html
         | Inr n \<Rightarrow>
             if n = JNum 0 then no_schedule_html
             else (case render_schedule v of Inl e \<Rightarrow> schedule_error_html | Inr r \<Rightarrow> fst r)))"
proof -
  have c: "getElementById ''today-schedule'' d = Some ''today-schedule''"
    using t by (rule getElementById_present)
  obtain d2 where d2:
    "fetchFromAPI p [] [(''operation'', ''getRoster''), (''date'', iso_date now)]
      (d\<lparr>targets := (targets d)(''today-schedule'' \<mapsto> Markup loading_html)\<rparr>) = (Inr v, d2)"
    using fetchFromAPI_again [OF f] by blast
  show ?thesis
    unfolding loadTodaySchedule_def Let_def c
    by (simp add: io_defs showLoading_Some d2 set_innerHTML_Some split: sum.splits)
qed

lemma preserves_loadTodaySchedule:
  assumes "i \<noteq> ''today-schedule''"
  shows "preserves (\<lambda>d. Q (targets d i)) (loadTodaySchedule p now)"
  unfolding preserves_def
proof (intro allI impI)
  fix d :: page
  assume q: "Q (targets d i)"
  let ?container = "getElementById ''today-schedule'' d"
  have c: "?container \<noteq> Some i"
    using getElementById_cases [of "''today-schedule''" d] assms by auto
  have w: "preserves (\<lambda>d. Q (targets d i)) (set_innerHTML ?container h)" for h
    using c by (rule preserves_set_innerHTML)
  have "preserves (\<lambda>d. Q (targets d i))
     (io_bind (showLoading ?container) (\<lambda>_.
        try_catch
          (io_bind
             (fetchFromAPI p [] [(''operation'', ''getRoster''), (''date'', iso_date now)])
             (\<lambda>schedule.
                io_bind (io_lift (get_prop schedule ''length'')) (\<lambda>n.
                  if n = JNum 0 then set_innerHTML ?container no_schedule_html
                  else
                    io_bind (io_lift (render_schedule schedule)) (\<lambda>r.
                      set_innerHTML ?container (fst r)))))
          (\<lambda>error. set_innerHTML ?container schedule_error_html)))"
    unfolding showLoading_def
    by (intro preserves_bind preserves_try_catch preserves_lift preserves_if preserves_return w
        preserves_fetchFromAPI [where Q = "\<lambda>t. Q (t i)"])
  then show "Q (targets (snd (loadTodaySchedule p now d)) i)"
    using q by (simp add: loadTodaySchedule_def Let_def preserves_def)
qed

subsection \<open>loadStats writes the pending count\<close>

lemma is_pending_eq:
  "\<not> nullish n \<Longrightarrow> is_pending n = Inr (get_prop n ''Status'' = Inr (JStr ''Pending''))"
  using get_prop_total [of n "''Status''"] by (auto simp: is_pending_def res_bind_def)

lemma pending_count_array:
  assumes "\<And>n. n \<in> set ns \<Longrightarrow> \<not> nullish n"
  shows "pending_count (JArr ns) =
    Inr (JNum (int (length (filter (\<lambda>n. get_prop n ''Status'' = Inr (JStr ''Pending'')) ns))))"
proof -
  have "array_filter is_pending ns =
      Inr (filter (\<lambda>n. get_prop n ''Status'' = Inr (JStr ''Pending'')) ns)"
    by (rule array_filter_total) (simp add: is_pending_eq assms)
  then show ?thesis
    by (simp add: pending_count_def elems_for_def res_bind_def or_else_def)
qed

lemma write_count_present:
  assumes "targets d i \<noteq> None"
  shows "write_count i v d = (Inr (), snd (write_count i v d))"
proof -
  obtain n where "opt_prop v ''length'' = Inr n" using opt_prop_total by blast
  then show ?thesis
    using getElementById_present [OF assms]
    by (simp add: write_count_def io_defs set_textContent_def)
qed

lemma write_count_keeps_targets:
  assumes "targets d j \<noteq> None"
  shows "targets (snd (write_count i v d)) j \<noteq> None"
proof (cases "i = j")
  case True
  obtain n where "opt_prop v ''length'' = Inr n" using opt_prop_total by blast
  then show ?thesis
    using getElementById_present [OF assms] True
    by (simp add: write_count_def io_defs set_textContent_def)
next
  case False
  then have "preserves (\<lambda>d. targets d j \<noteq> None) (write_count i v)"
    by (intro preserves_write_count) simp
  then show ?thesis using assms by (simp add: preserves_def)
qed

subsection \<open>loadOnCallToday\<close>

lemma loadOnCallToday_present:
  assumes t: "targets d ''on-call-today'' \<noteq> None"
    and f: "fst (fetchFromAPI p [] [(''sheet'', ''CallRoster'')] d) = Inr v"
  shows "fst (loadOnCallToday p now d) = Inr () \<and>
    targets (snd (loadOnCallToday p now d)) ''on-call-today'' =
      Some (Markup
        (case res_bind (elems_for ''filter'' v) (array_filter (is_today p (iso_date now))) of
           Inl e \<Rightarrow> on_call_error_html
         | Inr todayOnCall \<Rightarrow>
             if todayOnCall = [] then no_on_call_html
             else (case render_on_call todayOnCall of
                     Inl e \<Rightarrow> on_call_error_html
                   | Inr r \<Rightarrow> fst r)))"
proof -
  have c: "getElementById ''on-call-today'' d = Some ''on-call-today''"
    using t by (rule getElementById_present)
  obtain d2 where d2: "fetchFromAPI p [] [(''sheet'', ''CallRoster'')]
      (d\<lparr>targets := (targets d)(''on-call-today'' \<mapsto> Markup loading_html)\<rparr>) = (Inr v, d2)"
    using fetchFromAPI_again [OF f] by blast
  show ?thesis
    unfolding loadOnCallToday_def Let_def c
    by (simp add: io_defs showLoading_Some d2 set_innerHTML_Some split: sum.splits)
qed

lemma is_today_eq:
  assumes "item_iso_date p item \<noteq> None"
  shows "is_today p today item = Inr (item_iso_date p item = Some today)"
  using assms
  by (auto simp: is_today_def item_iso_date_def res_bind_def toISOString_date_def
      split: sum.splits option.splits)

lemma item_iso_date_not_nullish: "item_iso_date p item \<noteq> None \<Longrightarrow> \<not> nullish item"
  by (cases item) (auto simp: item_iso_date_def)

lemma call_item_eq: "\<not> nullish item \<Longrightarrow> call_item item = Inr (call_markup item, item)"
  by (cases item) (auto simp: call_item_def call_markup_def field_def res_bind_def)

lemma snd_loadData:
  "snd (loadData p a b c d) =
     snd (loadOnCallToday p c (snd (loadTodaySchedule p b (snd (loadStats p a d)))))"
  by (simp only: loadData_def snd_io_bind_return snd_promise_all_Cons)
     (simp add: io_return_def)

subsection \<open>The rendering pass over the roster\<close>

lemma consultant_names_string:
  "consultant_names (JStr s) = Inr names \<Longrightarrow>
   ToString names = join '', '' (take 2 (split (CHR '','') s))"
  by (auto simp: consultant_names_def)

lemma schedule_item_shape:
  assumes "schedule_item item = Inr (h, item')"
  shows "item' = item \<and>
    (\<exists>title names.
       h = schedule_item_html title (names @ ''...'')
             (if field item ''Status'' = JStr ''Sent'' then ''badge-sent'' else ''badge-pending'')
             (ToString (or_else (field item ''Status'') (JStr ''Pending''))) \<and>
       (\<forall>s. get_prop item ''Consultants'' = Inr (JStr s) \<longrightarrow>
          names = join '', '' (take 2 (split (CHR '','') s))))"
proof -
  from assms obtain clinic consultants names status where
    g: "get_prop item ''Consultants'' = Inr consultants" "consultant_names consultants = Inr names"
      "get_prop item ''Status'' = Inr status"
    and h: "h = schedule_item_html (ToString clinic) (ToString names @ ''...'')
        (if status = JStr ''Sent'' then ''badge-sent'' else ''badge-pending'')
        (ToString (or_else status (JStr ''Pending'')))"
    and i: "item' = item"
    unfolding schedule_item_def res_bind_def
    by (auto split: sum.splits)
  have "ToString names = join '', '' (take 2 (split (CHR '','') s))"
    if "get_prop item ''Consultants'' = Inr (JStr s)" for s
    using that g by (auto dest: consultant_names_string)
  with g h i show ?thesis
    by (auto simp: field_def)
qed

lemma array_map_schedule_item:
  assumes "array_map schedule_item items = Inr (parts, items')"
  shows "items' = items \<and> length parts = length items \<and>
    (\<forall>i < length items. schedule_item (items ! i) = Inr (parts ! i, items ! i))"
  using assms
proof (induction items arbitrary: parts items')
  case Nil
  then show ?case by simp
next
  case (Cons x xs)
  from Cons.prems obtain y x' ys xs' where
    x: "schedule_item x = Inr (y, x')" and xs: "array_map schedule_item xs = Inr (ys, xs')"
    and p: "parts = y # ys" and i: "items' = x' # xs'"
    by (auto split: sum.splits prod.splits)
  from schedule_item_shape [OF x] have x': "x' = x" by simp
  from Cons.IH [OF xs] have ih: "xs' = xs" "length ys = length xs"
    "\<forall>i < length xs. schedule_item (xs ! i) = Inr (ys ! i, xs ! i)" by simp_all
  show ?case
    using x x' ih p i by (auto simp: nth_Cons split: nat.splits)
qed

lemma render_schedule_shape:
  assumes "render_schedule (JArr items) = Inr (html, items')"
  shows "items' = items \<and>
    (\<exists>parts. html = concat parts \<and> length parts = length items \<and>
       (\<forall>i < length items. schedule_item (items ! i) = Inr (parts ! i, items ! i)))"
proof -
  from assms obtain parts where a: "array_map schedule_item items = Inr (parts, items')"
    and h: "html = concat parts"
    by (auto simp: render_schedule_def elems_for_def res_bind_def split: sum.splits)
  from array_map_schedule_item [OF a] h show ?thesis by blast
qed

lemma render_schedule_bare:
  "render_schedule (JArr [bare_entry]) =
     Inr (schedule_item_html ''ENT'' ''A...'' ''badge-pending'' ''Pending'', [bare_entry])"
  by (simp add: render_schedule_def elems_for_def res_bind_def schedule_item_def
      consultant_names_def or_else_def bare_entry_def)

subsection \<open>Toasts and timers\<close>

































lemma schedule_item_html_literal:
  \<open>schedule_item_html title subtitle badge_class badge_text =
     [CHR 0x0A] @ replicate 16 (CHR '' '') @ ''<div class="schedule-item">'' @
     [CHR 0x0A] @ replicate 20 (CHR '' '') @ ''<div class="schedule-info">'' @
     [CHR 0x0A] @ replicate 24 (CHR '' '') @ ''<h4>'' @ title @ ''</h4>'' @
     [CHR 0x0A] @ replicate 24 (CHR '' '') @ ''<p>'' @ subtitle @ ''</p>'' @
     [CHR 0x0A] @ replicate 20 (CHR '' '') @ ''</div>'' @
     [CHR 0x0A] @ replicate 20 (CHR '' '') @ ''<span class="status-badge '' @ badge_class @ ''">'' @
     [CHR 0x0A] @ replicate 24 (CHR '' '') @ badge_text @
     [CHR 0x0A] @ replicate 20 (CHR '' '') @ ''</span>'' @
     [CHR 0x0A] @ replicate 16 (CHR '' '') @ ''</div>'' @
     [CHR 0x0A] @ replicate 12 (CHR '' '')\<close>
  by (simp add: schedule_item_html_def nl_def sp_def)

subsection \<open>Closing a toast\<close>










section \<open>The claims\<close>

subsection \<open>C1: the API call fails soft\<close>

text \<open>
  Claim C1, as far as the code carries it. For every platform, parameter list and page,
  \<open>fetchFromAPI\<close> ends normally with a value and never with an exception. When the call
  fails (no valid endpoint URL, transport failure, non-success status, body that is not
  JSON, envelope without a true \<^verbatim>\<open>success\<close>), the value is the empty sequence and exactly
  one error toast is appended to the page. When it does not fail, the value is the
  envelope's \<^verbatim>\<open>data\<close> field exactly as received, and the page is untouched.
\<close>

theorem fetchFromAPI_fail_soft:
  "(\<exists>v. fst (fetchFromAPI p ep ps d) = Inr v) \<and>
   (call_fails p ps \<longrightarrow>
      fst (fetchFromAPI p ep ps d) = Inr (JArr []) \<and>
      (\<exists>t. toasts (snd (fetchFromAPI p ep ps d)) = toasts d @ [t] \<and>
           className t = ''error-toast'')) \<and>
   (\<not> call_fails p ps \<longrightarrow>
      (\<exists>status data. fetch p ps = Responded status (Parsed data) \<and>
         fst (fetchFromAPI p ep ps d) = get_prop data ''data'') \<and>
      snd (fetchFromAPI p ep ps d) = d)"
proof (cases "fetchFromAPI_try p ps")
  case (Inl e)
  then have "call_fails p ps" by (simp add: call_fails_iff)
  with Inl show ?thesis by (simp add: fetchFromAPI_eq toasts_showError)
next
  case (Inr v)
  then have nf: "\<not> call_fails p ps" by (simp add: call_fails_iff)
  from Inr have "\<exists>status data. fetch p ps = Responded status (Parsed data) \<and>
      Inr v = get_prop data ''data''"
    unfolding fetchFromAPI_try_def res_bind_def
    by (auto split: option.splits outcome.splits response_body.splits sum.splits if_splits)
  with Inr nf show ?thesis by (auto simp add: fetchFromAPI_eq)
qed

text \<open>
  The theorem at a response with status 500, where the call fails, and at a success
  envelope, where it does not.
\<close>

theorem fetchFromAPI_fail_soft_witness:
  "call_fails (ex_platform (Responded 500 (Malformed []))) [(''operation'', ''getDoctors'')] \<and>
   fst (fetchFromAPI (ex_platform (Responded 500 (Malformed []))) []
          [(''operation'', ''getDoctors'')] home_page) = Inr (JArr []) \<and>
   \<not> call_fails (ex_platform (ok_envelope (JArr [JNull]))) [(''operation'', ''getDoctors'')] \<and>
   fst (fetchFromAPI (ex_platform (ok_envelope (JArr [JNull]))) []
          [(''operation'', ''getDoctors'')] home_page) = Inr (JArr [JNull]) \<and>
   snd (fetchFromAPI (ex_platform (ok_envelope (JArr [JNull]))) []
          [(''operation'', ''getDoctors'')] home_page) = home_page"
proof -
  have f: "call_fails (ex_platform (Responded 500 (Malformed []))) [(''operation'', ''getDoctors'')]"
    by (simp add: call_fails_def ex_defs)
  have s: "\<not> call_fails (ex_platform (ok_envelope (JArr [JNull]))) [(''operation'', ''getDoctors'')]"
    by (simp add: call_fails_def ex_defs)
  have g: "fetch (ex_platform (ok_envelope (JArr [JNull]))) [(''operation'', ''getDoctors'')] =
      Responded 200 (Parsed (JObj [(''success'', JBool True), (''data'', JArr [JNull])]))"
    by (simp add: ex_defs)
  show ?thesis
    using f s g
      fetchFromAPI_fail_soft [of "ex_platform (Responded 500 (Malformed []))" "[]"
        "[(''operation'', ''getDoctors'')]" home_page]
      fetchFromAPI_fail_soft [of "ex_platform (ok_envelope (JArr [JNull]))" "[]"
        "[(''operation'', ''getDoctors'')]" home_page]
    by auto
qed

text \<open>
  The value is not always a sequence: a success envelope that carries no \<^verbatim>\<open>data\<close>
  field makes the call return \<^verbatim>\<open>undefined\<close>.
\<close>

theorem fetchFromAPI_returns_undefined:
  "fst (fetchFromAPI (ex_platform (Responded 200 (Parsed (JObj [(''success'', JBool True)])))) []
          [(''operation'', ''getDoctors'')] home_page) = Inr JUndefined \<and>
   \<not> returns_sequence
       (fst (fetchFromAPI (ex_platform (Responded 200 (Parsed (JObj [(''success'', JBool True)])))) []
          [(''operation'', ''getDoctors'')] home_page))"
  by (simp add: fetchFromAPI_eq fetchFromAPI_try_def ex_defs returns_sequence_def)

subsection \<open>C2: a missing render target\<close>

text \<open>
  Claim C2 says that no aggregation routine rejects and that the refresh never fails,
  whatever render targets are missing. On a page that has every target except
  \<^verbatim>\<open>today-schedule\<close>, with every request rejected by the network, \<open>loadTodaySchedule\<close>
  ends with the \<^verbatim>\<open>TypeError\<close> that its own \<^verbatim>\<open>catch\<close> block raises when it writes the
  placeholder into the missing element; \<open>loadData\<close> is rejected with it, and so is
  \<open>refreshData\<close>. The sibling routine still runs to its end: the \<^verbatim>\<open>on-call-today\<close>
  target holds its placeholder afterwards.
\<close>

theorem loadData_rejects_without_schedule_target:
  "fst (loadTodaySchedule (ex_platform (Rejected ''Failed to fetch'')) 0 page_without_schedule) =
     Inl (TypeError ''Cannot set properties of null (setting innerHTML)'') \<and>
   fst (loadData (ex_platform (Rejected ''Failed to fetch'')) 0 0 0 page_without_schedule) =
     Inl (TypeError ''Cannot set properties of null (setting innerHTML)'') \<and>
   fst (refreshData (ex_platform (Rejected ''Failed to fetch'')) HomePage 0 0 0 0
          page_without_schedule) =
     Inl (TypeError ''Cannot set properties of null (setting innerHTML)'') \<and>
   targets (snd (loadData (ex_platform (Rejected ''Failed to fetch'')) 0 0 0 page_without_schedule))
     ''on-call-today'' = Some (Markup no_on_call_html)"
proof -
  let ?p = "ex_platform (Rejected ''Failed to fetch'')"
  let ?e = "TypeError ''Cannot set properties of null (setting innerHTML)''"
  let ?d1 = "snd (loadStats ?p 0 page_without_schedule)"
  let ?d2 = "snd (loadTodaySchedule ?p 0 ?d1)"
  have a: "targets page_without_schedule ''today-schedule'' = None"
    by (simp add: page_without_schedule_def stats_targets_def)
  have b: "targets page_without_schedule ''on-call-today'' \<noteq> None"
    by (simp add: page_without_schedule_def stats_targets_def)
  have 1: "fst (loadTodaySchedule ?p 0 page_without_schedule) = Inl ?e"
    using a by (rule loadTodaySchedule_absent)
  have "preserves (\<lambda>d. targets d ''today-schedule'' = None) (loadStats ?p 0)"
    by (rule preserves_loadStats) simp
  then have "targets ?d1 ''today-schedule'' = None"
    using a by (simp add: preserves_def)
  then have 2: "fst (loadTodaySchedule ?p 0 ?d1) = Inl ?e"
    by (rule loadTodaySchedule_absent)
  have 3: "fst (promise_all [loadTodaySchedule ?p 0, loadOnCallToday ?p 0] ?d1) = Inl ?e"
    using 2 by (rule fst_promise_all_reject)
  have "fst (promise_all [loadStats ?p 0, loadTodaySchedule ?p 0, loadOnCallToday ?p 0]
      page_without_schedule) = Inl ?e"
    using fst_loadStats 3 by (rule fst_promise_all_skip)
  then have 4: "fst (loadData ?p 0 0 0 page_without_schedule) = Inl ?e"
    unfolding loadData_def by (rule fst_io_bind_Inl)
  then have 5: "fst (refreshData ?p HomePage 0 0 0 0 page_without_schedule) = Inl ?e"
    unfolding refreshData_def app_loadData_def by (simp add: fst_io_bind_Inl)
  have "preserves (\<lambda>d. targets d ''on-call-today'' \<noteq> None) (loadStats ?p 0)"
    by (rule preserves_loadStats) simp
  then have "targets ?d1 ''on-call-today'' \<noteq> None"
    using b by (simp add: preserves_def)
  moreover have "preserves (\<lambda>d. targets d ''on-call-today'' \<noteq> None) (loadTodaySchedule ?p 0)"
    by (rule preserves_loadTodaySchedule) simp
  ultimately have t: "targets ?d2 ''on-call-today'' \<noteq> None"
    by (simp add: preserves_def)
  have f: "fst (fetchFromAPI ?p [] [(''sheet'', ''CallRoster'')] ?d2) = Inr (JArr [])"
    by (simp add: fst_fetchFromAPI fetchFromAPI_try_def ex_defs)
  have 6: "targets (snd (loadData ?p 0 0 0 page_without_schedule)) ''on-call-today'' =
      Some (Markup no_on_call_html)"
    using loadOnCallToday_present [OF t f, of 0]
    by (simp add: snd_loadData elems_for_def res_bind_def)
  from 1 4 5 6 show ?thesis by simp
qed

subsection \<open>C3: the on-call entries of today\<close>

text \<open>
  Claim C3, as far as the code carries it. When the \<^verbatim>\<open>on-call-today\<close> target exists and
  the call roster is a sequence of entries whose \<^verbatim>\<open>Date\<close> is a valid date,
  \<open>loadOnCallToday\<close> renders exactly the entries whose date in UTC (the ISO date string)
  equals the UTC date of the current instant, in the order of the roster, and the
  placeholder when there is none.
\<close>

theorem loadOnCallToday_utc_day:
  assumes t: "targets d ''on-call-today'' \<noteq> None"
    and f: "fst (fetchFromAPI p [] [(''sheet'', ''CallRoster'')] d) = Inr (JArr items)"
    and v: "\<forall>item \<in> set items. item_iso_date p item \<noteq> None"
  shows "targets (snd (loadOnCallToday p now d)) ''on-call-today'' =
    Some (Markup
      (if filter (\<lambda>item. item_iso_date p item = Some (iso_date now)) items = []
       then no_on_call_html
       else concat (map call_markup
              (filter (\<lambda>item. item_iso_date p item = Some (iso_date now)) items))))"
proof -
  let ?today = "filter (\<lambda>item. item_iso_date p item = Some (iso_date now)) items"
  have 1: "array_filter (is_today p (iso_date now)) items = Inr ?today"
    by (rule array_filter_total) (simp add: is_today_eq v)
  have "\<not> nullish item" if "item \<in> set ?today" for item
  proof -
    from that have "item \<in> set items" by simp
    with v have "item_iso_date p item \<noteq> None" by blast
    then show ?thesis by (rule item_iso_date_not_nullish)
  qed
  then have "array_map call_item ?today = Inr (map call_markup ?today, ?today)"
    by (intro array_map_total call_item_eq)
  then have 2: "render_on_call ?today = Inr (concat (map call_markup ?today), ?today)"
    by (simp add: render_on_call_def res_bind_def)
  show ?thesis
    using loadOnCallToday_present [OF t f, of now]
    by (simp add: elems_for_def res_bind_def 1 2)
qed

text \<open>
  The theorem on a roster of three entries dated 2 January, 3 January and 2 January 2024,
  at noon UTC of 2 January: the first and the third are rendered, in that order.
\<close>

theorem loadOnCallToday_utc_day_witness:
  "targets home_page ''on-call-today'' \<noteq> None \<and>
   fst (fetchFromAPI
          (ex_platform (ok_envelope (JArr [on_call_entry ''2024-01-02'' ''Dr A'',
             on_call_entry ''2024-01-03'' ''Dr D'', on_call_entry ''2024-01-02'' ''Dr E''])))
          [] [(''sheet'', ''CallRoster'')] home_page) =
     Inr (JArr [on_call_entry ''2024-01-02'' ''Dr A'',
             on_call_entry ''2024-01-03'' ''Dr D'', on_call_entry ''2024-01-02'' ''Dr E'']) \<and>
   item_iso_date (ex_platform (ok_envelope (JArr [on_call_entry ''2024-01-02'' ''Dr A'',
             on_call_entry ''2024-01-03'' ''Dr D'', on_call_entry ''2024-01-02'' ''Dr E''])))
        (on_call_entry ''2024-01-02'' ''Dr A'') = Some ''2024-01-02'' \<and>
   item_iso_date (ex_platform (ok_envelope (JArr [on_call_entry ''2024-01-02'' ''Dr A'',
             on_call_entry ''2024-01-03'' ''Dr D'', on_call_entry ''2024-01-02'' ''Dr E''])))
        (on_call_entry ''2024-01-03'' ''Dr D'') = Some ''2024-01-03'' \<and>
   item_iso_date (ex_platform (ok_envelope (JArr [on_call_entry ''2024-01-02'' ''Dr A'',
             on_call_entry ''2024-01-03'' ''Dr D'', on_call_entry ''2024-01-02'' ''Dr E''])))
        (on_call_entry ''2024-01-02'' ''Dr E'') = Some ''2024-01-02'' \<and>
   iso_date 1704196800000 = ''2024-01-02'' \<and>
   targets (snd (loadOnCallToday
          (ex_platform (ok_envelope (JArr [on_call_entry ''2024-01-02'' ''Dr A'',
             on_call_entry ''2024-01-03'' ''Dr D'', on_call_entry ''2024-01-02'' ''Dr E''])))
          1704196800000 home_page)) ''on-call-today'' =
     Some (Markup (call_item_html ''Dr A'' ''Dr B'' ''Dr C'' @ call_item_html ''Dr E'' ''Dr B'' ''Dr C''))"
proof -
  let ?items = "[on_call_entry ''2024-01-02'' ''Dr A'',
             on_call_entry ''2024-01-03'' ''Dr D'', on_call_entry ''2024-01-02'' ''Dr E'']"
  let ?p = "ex_platform (ok_envelope (JArr ?items))"
  have a: "targets home_page ''on-call-today'' \<noteq> None" by (simp add: ex_defs)
  have b: "fst (fetchFromAPI ?p [] [(''sheet'', ''CallRoster'')] home_page) = Inr (JArr ?items)"
    by (simp add: fetchFromAPI_eq fetchFromAPI_try_def ex_defs)
  have d2: "iso_date 1704153600000 = ''2024-01-02''" by code_simp
  have d3: "iso_date 1704240000000 = ''2024-01-03''" by code_simp
  have n: "iso_date 1704196800000 = ''2024-01-02''" by code_simp
  have i2: "item_iso_date ?p (on_call_entry ''2024-01-02'' c) = Some ''2024-01-02''" for c
    by (simp add: item_iso_date_def on_call_entry_def new_Date_def ex_platform_def TimeClip_def d2)
  have i3: "item_iso_date ?p (on_call_entry ''2024-01-03'' c) = Some ''2024-01-03''" for c
    by (simp add: item_iso_date_def on_call_entry_def new_Date_def ex_platform_def TimeClip_def d3)
  have c: "\<forall>item \<in> set ?items. item_iso_date ?p item \<noteq> None"
    by (simp add: i2 i3)
  have m: "call_markup (on_call_entry dt c) = call_item_html c ''Dr B'' ''Dr C''" for dt c
    by (simp add: call_markup_def on_call_entry_def field_def)
  have "targets (snd (loadOnCallToday ?p 1704196800000 home_page)) ''on-call-today'' =
     Some (Markup (call_item_html ''Dr A'' ''Dr B'' ''Dr C'' @ call_item_html ''Dr E'' ''Dr B'' ''Dr C''))"
    using loadOnCallToday_utc_day [OF a b c, of 1704196800000]
    by (simp add: n i2 i3 m)
  with a b n i2 i3 show ?thesis by blast
qed

text \<open>
  The claim speaks of the calendar day in local time. Where local time is one hour ahead
  of UTC, at 23:30 UTC of 1 January 2024 the local day is already 2 January; the entry
  dated 2 January is of the current local day, and is not rendered.
\<close>

theorem loadOnCallToday_skips_local_today:
  "item_local_day (ex_platform (ok_envelope (JArr [on_call_entry ''2024-01-02'' ''Dr A''])))
       (on_call_entry ''2024-01-02'' ''Dr A'') =
     Some (local_day (ex_platform (ok_envelope (JArr [on_call_entry ''2024-01-02'' ''Dr A''])))
       1704151800000) \<and>
   targets (snd (loadOnCallToday
          (ex_platform (ok_envelope (JArr [on_call_entry ''2024-01-02'' ''Dr A''])))
          1704151800000 home_page)) ''on-call-today'' = Some (Markup no_on_call_html)"
  by code_simp

subsection \<open>C4: the failure envelope\<close>

text \<open>
  Claim C4, as far as the code carries it. When the endpoint is a valid URL and the
  response has a success status and the envelope \<^verbatim>\<open>{success: false, message: "X"}\<close> as
  its body, whatever else the envelope holds, the call returns the empty sequence and
  appends exactly one toast to the page: the error toast whose message element is
  \<^verbatim>\<open><span>Failed to load data: X</span\<close>>, which contains \<open>X\<close>.
\<close>

theorem failure_envelope_one_notification:
  assumes "URL_error p (API_URL p) = None"
    and "fetch p ps = Responded status (Parsed (JObj fs))"
    and "response_ok status"
    and "map_of fs ''success'' = Some (JBool False)"
    and "map_of fs ''message'' = Some (JStr X)"
  shows "fst (fetchFromAPI p ep ps d) = Inr (JArr []) \<and>
    toasts (snd (fetchFromAPI p ep ps d)) =
      toasts d @ [\<lparr>tid = fresh d, className = ''error-toast'',
                   shown = Markup (error_toast_html (''Failed to load data: '' @ X))\<rparr>] \<and>
    sublist X (error_toast_html (''Failed to load data: '' @ X)) \<and>
    sublist (''<span>Failed to load data: '' @ X @ ''</span>'')
      (error_toast_html (''Failed to load data: '' @ X))"
proof -
  have "fetchFromAPI_try p ps = Inl (Error X)"
    using assms by (simp add: fetchFromAPI_try_def res_bind_def new_Error_def)
  moreover have "sublist X (error_toast_html (''Failed to load data: '' @ X))"
    unfolding sublist_def error_toast_html_def
    by (metis append.assoc)
  moreover have "error_toast_html (''Failed to load data: '' @ X) =
      (nl @ sp 12 @ ''<i class=\"fas fa-exclamation-circle\"></i>'' @ nl @ sp 12) @
      (''<span>Failed to load data: '' @ X @ ''</span>'') @
      (nl @ sp 12 @ ''<button onclick=\"this.parentElement.remove()\">&times;</button>'' @ nl @ sp 8)"
    by (simp add: error_toast_html_def)
  then have "sublist (''<span>Failed to load data: '' @ X @ ''</span>'')
      (error_toast_html (''Failed to load data: '' @ X))"
    by (simp only: sublist_appendI)
  ultimately show ?thesis
    by (simp add: fetchFromAPI_eq toasts_showError)
qed

text \<open>The theorem at the envelope with the message \<^verbatim>\<open>Quota exceeded\<close>.\<close>

theorem failure_envelope_one_notification_witness:
  "URL_error (ex_platform (Responded 200 (Parsed (JObj [(''success'', JBool False),
       (''message'', JStr ''Quota exceeded'')]))))
     (API_URL (ex_platform (Responded 200 (Parsed (JObj [(''success'', JBool False),
       (''message'', JStr ''Quota exceeded'')]))))) = None \<and>
   response_ok 200 \<and>
   fst (fetchFromAPI (ex_platform (Responded 200 (Parsed (JObj [(''success'', JBool False),
       (''message'', JStr ''Quota exceeded'')])))) [] [(''sheet'', ''Notifications'')] home_page) =
     Inr (JArr []) \<and>
   toasts (snd (fetchFromAPI (ex_platform (Responded 200 (Parsed (JObj [(''success'', JBool False),
       (''message'', JStr ''Quota exceeded'')])))) [] [(''sheet'', ''Notifications'')] home_page)) =
     [\<lparr>tid = 0, className = ''error-toast'',
       shown = Markup (error_toast_html ''Failed to load data: Quota exceeded'')\<rparr>] \<and>
   sublist ''Quota exceeded'' (error_toast_html ''Failed to load data: Quota exceeded'') \<and>
   sublist ''<span>Failed to load data: Quota exceeded</span>''
     (error_toast_html ''Failed to load data: Quota exceeded'')"
proof -
  let ?fs = "[(''success'', JBool False), (''message'', JStr ''Quota exceeded'')]"
  let ?p = "ex_platform (Responded 200 (Parsed (JObj ?fs)))"
  have a: "URL_error ?p (API_URL ?p) = None" by (simp add: ex_defs)
  have b: "fetch ?p [(''sheet'', ''Notifications'')] = Responded 200 (Parsed (JObj ?fs))"
    by (simp add: ex_defs)
  have c: "response_ok 200" by (simp add: response_ok_def)
  have d: "map_of ?fs ''success'' = Some (JBool False)" by simp
  have e: "map_of ?fs ''message'' = Some (JStr ''Quota exceeded'')" by simp
  show ?thesis
    using a c failure_envelope_one_notification [OF a b c d e, of "[]" home_page]
    by (simp add: home_page_def)
qed

text \<open>
  The status is checked before the envelope is read. When the same envelope arrives with
  status 500, the one toast reports the status and does not contain the message of the
  envelope.
\<close>

theorem failure_envelope_at_status_500:
  \<open>fst (fetchFromAPI (ex_platform (Responded 500 (Parsed (JObj [(''success'', JBool False),
       (''message'', JStr ''Quota exceeded'')])))) [] [(''sheet'', ''Notifications'')] home_page) =
     Inr (JArr []) \<and>
   map shown (toasts (snd (fetchFromAPI (ex_platform (Responded 500 (Parsed (JObj [(''success'', JBool False),
       (''message'', JStr ''Quota exceeded'')])))) [] [(''sheet'', ''Notifications'')] home_page))) =
     [Markup (error_toast_html ''Failed to load data: HTTP error! status: 500'')] \<and>
   \<not> sublist ''Quota exceeded'' (error_toast_html ''Failed to load data: HTTP error! status: 500'')\<close>
  by code_simp

subsection \<open>C5: the count of pending notifications\<close>

text \<open>
  Claim C5. When the four count targets exist and the notifications call returns a
  sequence of records (no element is \<^verbatim>\<open>null\<close> or \<^verbatim>\<open>undefined\<close>), the text that \<open>loadStats\<close>
  leaves in \<^verbatim>\<open>notification-count\<close> is the decimal numeral of the number of records whose
  \<^verbatim>\<open>Status\<close> is exactly the string \<^verbatim>\<open>Pending\<close>. A record with another status, or with
  none, is not counted.
\<close>

theorem loadStats_pending_count:
  assumes t: "targets d ''doctor-count'' \<noteq> None" "targets d ''clinic-count'' \<noteq> None"
      "targets d ''roster-count'' \<noteq> None" "targets d ''notification-count'' \<noteq> None"
    and f: "fst (fetchFromAPI p [] [(''sheet'', ''Notifications'')] d) = Inr (JArr ns)"
    and ns: "\<forall>n \<in> set ns. \<not> nullish n"
  shows "targets (snd (loadStats p now d)) ''notification-count'' =
    Some (Text (digits (length (filter (\<lambda>n. get_prop n ''Status'' = Inr (JStr ''Pending'')) ns))))"
proof -
  let ?k = "length (filter (\<lambda>n. get_prop n ''Status'' = Inr (JStr ''Pending'')) ns)"
  let ?pss = "[[(''operation'', ''getDoctors'')], [(''operation'', ''getClinics'')],
      [(''operation'', ''getRoster''), (''date'', iso_date now)], [(''sheet'', ''Notifications'')]]"
  have n: "(case fetchFromAPI_try p [(''sheet'', ''Notifications'')] of
      Inr v \<Rightarrow> v | Inl e \<Rightarrow> JArr []) = JArr ns"
    using f by (simp add: fst_fetchFromAPI)
  obtain d0 where d0: "promise_all (map (fetchFromAPI p []) ?pss) d =
      (Inr (map (\<lambda>ps. case fetchFromAPI_try p ps of Inr v \<Rightarrow> v | Inl e \<Rightarrow> JArr []) ?pss), d0)"
      "targets d0 = targets d"
    using promise_all_fetches [of p "[]" ?pss d] by blast
  define v1 where "v1 = (case fetchFromAPI_try p [(''operation'', ''getDoctors'')] of
      Inr v \<Rightarrow> v | Inl e \<Rightarrow> JArr [])"
  define v2 where "v2 = (case fetchFromAPI_try p [(''operation'', ''getClinics'')] of
      Inr v \<Rightarrow> v | Inl e \<Rightarrow> JArr [])"
  define v3 where "v3 = (case fetchFromAPI_try p [(''operation'', ''getRoster''), (''date'', iso_date now)] of
      Inr v \<Rightarrow> v | Inl e \<Rightarrow> JArr [])"
  have body: "loadStats p now d =
      try_catch (loadStats_render v1 v2 v3 (JArr ns)) (\<lambda>error. io_return ()) d0"
    using d0(1) by (simp add: loadStats_def try_catch_def io_bind_def item_at_def n v1_def v2_def v3_def)
  define w1 where "w1 = snd (write_count ''doctor-count'' v1 d0)"
  define w2 where "w2 = snd (write_count ''clinic-count'' v2 w1)"
  define w3 where "w3 = snd (write_count ''roster-count'' v3 w2)"
  have t0: "targets d0 ''doctor-count'' \<noteq> None" "targets d0 ''clinic-count'' \<noteq> None"
      "targets d0 ''roster-count'' \<noteq> None" "targets d0 ''notification-count'' \<noteq> None"
    using t d0(2) by simp_all
  have t1: "targets w1 ''clinic-count'' \<noteq> None" "targets w1 ''roster-count'' \<noteq> None"
      "targets w1 ''notification-count'' \<noteq> None"
    unfolding w1_def using t0 by (simp_all add: write_count_keeps_targets)
  have t2: "targets w2 ''roster-count'' \<noteq> None" "targets w2 ''notification-count'' \<noteq> None"
    unfolding w2_def using t1 by (simp_all add: write_count_keeps_targets)
  have t3: "targets w3 ''notification-count'' \<noteq> None"
    unfolding w3_def using t2 by (simp_all add: write_count_keeps_targets)
  have r1: "write_count ''doctor-count'' v1 d0 = (Inr (), w1)"
    unfolding w1_def using t0(1) by (rule write_count_present)
  have r2: "write_count ''clinic-count'' v2 w1 = (Inr (), w2)"
    unfolding w2_def using t1(1) by (rule write_count_present)
  have r3: "write_count ''roster-count'' v3 w2 = (Inr (), w3)"
    unfolding w3_def using t2(1) by (rule write_count_present)
  have pc: "pending_count (JArr ns) = Inr (JNum (int ?k))"
    using ns by (intro pending_count_array) simp
  have "loadStats_render v1 v2 v3 (JArr ns) d0 =
      set_textContent (Some ''notification-count'') (JNum (int ?k)) w3"
    unfolding loadStats_render_def
    by (simp add: io_bind_def r1 r2 r3 pc io_lift_def getElementById_present [OF t3])
  then show ?thesis
    by (simp add: body try_catch_def set_textContent_def io_modify_def)
qed

text \<open>
  The theorem on four notifications with the statuses \<^verbatim>\<open>Pending\<close>, \<^verbatim>\<open>pending\<close>,
  \<^verbatim>\<open>Sent\<close> and \<^verbatim>\<open>Pending\<close> and a fifth without status: the count shown is 2.
\<close>

theorem loadStats_pending_count_witness:
  "targets home_page ''doctor-count'' \<noteq> None \<and> targets home_page ''clinic-count'' \<noteq> None \<and>
   targets home_page ''roster-count'' \<noteq> None \<and> targets home_page ''notification-count'' \<noteq> None \<and>
   fst (fetchFromAPI
          (ex_platform (ok_envelope (JArr [notification ''Pending'', notification ''pending'',
             notification ''Sent'', notification ''Pending'', JObj []])))
          [] [(''sheet'', ''Notifications'')] home_page) =
     Inr (JArr [notification ''Pending'', notification ''pending'',
             notification ''Sent'', notification ''Pending'', JObj []]) \<and>
   \<not> nullish (notification ''Pending'') \<and> \<not> nullish (notification ''pending'') \<and>
   \<not> nullish (notification ''Sent'') \<and> \<not> nullish (JObj []) \<and>
   targets (snd (loadStats
          (ex_platform (ok_envelope (JArr [notification ''Pending'', notification ''pending'',
             notification ''Sent'', notification ''Pending'', JObj []])))
          0 home_page)) ''notification-count'' = Some (Text ''2'')"
proof -
  let ?ns = "[notification ''Pending'', notification ''pending'',
             notification ''Sent'', notification ''Pending'', JObj []]"
  let ?p = "ex_platform (ok_envelope (JArr ?ns))"
  have t: "targets home_page ''doctor-count'' \<noteq> None" "targets home_page ''clinic-count'' \<noteq> None"
      "targets home_page ''roster-count'' \<noteq> None" "targets home_page ''notification-count'' \<noteq> None"
    by (simp_all add: ex_defs)
  have f: "fst (fetchFromAPI ?p [] [(''sheet'', ''Notifications'')] home_page) = Inr (JArr ?ns)"
    by (simp add: fetchFromAPI_eq fetchFromAPI_try_def ex_defs)
  have n: "\<forall>n \<in> set ?ns. \<not> nullish n" by (simp add: notification_def)
  have "digits (Suc (Suc 0)) = ''2''" by (simp add: digits.simps)
  then have "targets (snd (loadStats ?p 0 home_page)) ''notification-count'' = Some (Text ''2'')"
    using loadStats_pending_count [OF t f n, of 0] by (simp add: notification_def)
  with t f show ?thesis by (simp add: notification_def)
qed

subsection \<open>C6 and C7: the schedule of an empty and of a one-entry roster\<close>

text \<open>
  Claim C6. When the \<^verbatim>\<open>today-schedule\<close> target exists and the roster fetched for today's
  date is the empty sequence, \<open>loadTodaySchedule\<close> completes normally and the content it
  leaves in the target is the single placeholder element
  \<^verbatim>\<open><div class="no-data">No schedule for today</div\<close>>, with no schedule item.
\<close>

theorem loadTodaySchedule_empty_roster:
  assumes "targets d ''today-schedule'' \<noteq> None"
    and "fst (fetchFromAPI p [] [(''operation'', ''getRoster''), (''date'', iso_date now)] d) =
      Inr (JArr [])"
  shows \<open>fst (loadTodaySchedule p now d) = Inr () \<and>
    targets (snd (loadTodaySchedule p now d)) ''today-schedule'' =
      Some (Markup ''<div class="no-data">No schedule for today</div>'')\<close>
  using loadTodaySchedule_present [OF assms] by (simp add: no_schedule_html_def)

text \<open>The theorem on a service that answers with an empty roster.\<close>

theorem loadTodaySchedule_empty_roster_witness:
  \<open>targets home_page ''today-schedule'' \<noteq> None \<and>
   fst (fetchFromAPI (ex_platform (ok_envelope (JArr []))) []
          [(''operation'', ''getRoster''), (''date'', iso_date 0)] home_page) = Inr (JArr []) \<and>
   fst (loadTodaySchedule (ex_platform (ok_envelope (JArr []))) 0 home_page) = Inr () \<and>
   targets (snd (loadTodaySchedule (ex_platform (ok_envelope (JArr []))) 0 home_page))
     ''today-schedule'' = Some (Markup ''<div class="no-data">No schedule for today</div>'')\<close>
proof -
  have a: "targets home_page ''today-schedule'' \<noteq> None" by (simp add: ex_defs)
  have b: "fst (fetchFromAPI (ex_platform (ok_envelope (JArr []))) []
      [(''operation'', ''getRoster''), (''date'', iso_date 0)] home_page) = Inr (JArr [])"
    by (simp add: fetchFromAPI_eq fetchFromAPI_try_def ex_defs)
  from loadTodaySchedule_empty_roster [OF a b] a b show ?thesis by blast
qed

text \<open>
  Claim C7. When the \<^verbatim>\<open>today-schedule\<close> target exists and the roster fetched is the one
  entry with clinic \<^verbatim>\<open>ENT\<close>, consultants \<^verbatim>\<open>A,B,C\<close> and status \<^verbatim>\<open>Sent\<close>, the content
  left in the target is exactly one schedule item, given here character by character:
  title \<^verbatim>\<open>ENT\<close>, subtitle \<^verbatim>\<open>A, B\<close> followed by the marker \<^verbatim>\<open>...\<close>, badge text
  \<^verbatim>\<open>Sent\<close> with the class \<^verbatim>\<open>badge-sent\<close>.
\<close>

theorem loadTodaySchedule_ent_scenario:
  assumes "targets d ''today-schedule'' \<noteq> None"
    and "fst (fetchFromAPI p [] [(''operation'', ''getRoster''), (''date'', iso_date now)] d) =
      Inr (JArr [JObj [(''Clinic'', JStr ''ENT''), (''Consultants'', JStr ''A,B,C''),
                       (''Status'', JStr ''Sent'')]])"
  shows \<open>fst (loadTodaySchedule p now d) = Inr () \<and>
    targets (snd (loadTodaySchedule p now d)) ''today-schedule'' =
      Some (Markup
        ([CHR 0x0A] @ replicate 16 (CHR '' '') @ ''<div class="schedule-item">'' @
         [CHR 0x0A] @ replicate 20 (CHR '' '') @ ''<div class="schedule-info">'' @
         [CHR 0x0A] @ replicate 24 (CHR '' '') @ ''<h4>ENT</h4>'' @
         [CHR 0x0A] @ replicate 24 (CHR '' '') @ ''<p>A, B...</p>'' @
         [CHR 0x0A] @ replicate 20 (CHR '' '') @ ''</div>'' @
         [CHR 0x0A] @ replicate 20 (CHR '' '') @ ''<span class="status-badge badge-sent">'' @
         [CHR 0x0A] @ replicate 24 (CHR '' '') @ ''Sent'' @
         [CHR 0x0A] @ replicate 20 (CHR '' '') @ ''</span>'' @
         [CHR 0x0A] @ replicate 16 (CHR '' '') @ ''</div>'' @
         [CHR 0x0A] @ replicate 12 (CHR '' '')))\<close>
proof -
  have "render_schedule (JArr [JObj [(''Clinic'', JStr ''ENT''), (''Consultants'', JStr ''A,B,C''),
          (''Status'', JStr ''Sent'')]]) =
      Inr (schedule_item_html ''ENT'' ''A, B...'' ''badge-sent'' ''Sent'',
        [JObj [(''Clinic'', JStr ''ENT''), (''Consultants'', JStr ''A,B,C''),
          (''Status'', JStr ''Sent'')]])"
    by (simp add: render_schedule_def elems_for_def res_bind_def schedule_item_def
        consultant_names_def or_else_def)
  then show ?thesis
    using loadTodaySchedule_present [OF assms] by (simp add: schedule_item_html_literal)
qed

text \<open>The theorem on a service that answers with this roster.\<close>

theorem loadTodaySchedule_ent_scenario_witness:
  \<open>targets home_page ''today-schedule'' \<noteq> None \<and>
   fst (fetchFromAPI (ex_platform (ok_envelope (JArr [ent_entry]))) []
          [(''operation'', ''getRoster''), (''date'', iso_date 0)] home_page) =
     Inr (JArr [JObj [(''Clinic'', JStr ''ENT''), (''Consultants'', JStr ''A,B,C''),
                      (''Status'', JStr ''Sent'')]]) \<and>
   targets (snd (loadTodaySchedule (ex_platform (ok_envelope (JArr [ent_entry]))) 0 home_page))
     ''today-schedule'' =
     Some (Markup
        ([CHR 0x0A] @ replicate 16 (CHR '' '') @ ''<div class="schedule-item">'' @
         [CHR 0x0A] @ replicate 20 (CHR '' '') @ ''<div class="schedule-info">'' @
         [CHR 0x0A] @ replicate 24 (CHR '' '') @ ''<h4>ENT</h4>'' @
         [CHR 0x0A] @ replicate 24 (CHR '' '') @ ''<p>A, B...</p>'' @
         [CHR 0x0A] @ replicate 20 (CHR '' '') @ ''</div>'' @
         [CHR 0x0A] @ replicate 20 (CHR '' '') @ ''<span class="status-badge badge-sent">'' @
         [CHR 0x0A] @ replicate 24 (CHR '' '') @ ''Sent'' @
         [CHR 0x0A] @ replicate 20 (CHR '' '') @ ''</span>'' @
         [CHR 0x0A] @ replicate 16 (CHR '' '') @ ''</div>'' @
         [CHR 0x0A] @ replicate 12 (CHR '' '')))\<close>
proof -
  have a: "targets home_page ''today-schedule'' \<noteq> None" by (simp add: ex_defs)
  have b: "fst (fetchFromAPI (ex_platform (ok_envelope (JArr [ent_entry]))) []
      [(''operation'', ''getRoster''), (''date'', iso_date 0)] home_page) =
     Inr (JArr [JObj [(''Clinic'', JStr ''ENT''), (''Consultants'', JStr ''A,B,C''),
                      (''Status'', JStr ''Sent'')]])"
    by (simp add: fetchFromAPI_eq fetchFromAPI_try_def ex_defs ent_entry_def)
  from loadTodaySchedule_ent_scenario [OF a b] a b show ?thesis by blast
qed

subsection \<open>C8: the default status is for display only\<close>

text \<open>
  Claim C8. When \<open>loadTodaySchedule\<close> renders a non-empty roster into its target, the
  markup is the concatenation of one part per entry; for every entry without a
  \<^verbatim>\<open>Status\<close> the part is a schedule item, given here character by character, whose badge
  element has the class \<^verbatim>\<open>badge-pending\<close> and the text \<^verbatim>\<open>Pending\<close>; and the entries
  are, after the rendering pass, what they were before it.
\<close>

theorem status_default_display_only:
  assumes t: "targets d ''today-schedule'' \<noteq> None"
    and f: "fst (fetchFromAPI p [] [(''operation'', ''getRoster''), (''date'', iso_date now)] d) =
      Inr (JArr items)"
    and ne: "items \<noteq> []"
    and r: "render_schedule (JArr items) = Inr (html, items')"
  shows \<open>targets (snd (loadTodaySchedule p now d)) ''today-schedule'' = Some (Markup html) \<and>
    items' = items \<and>
    (\<exists>parts. html = concat parts \<and> length parts = length items \<and>
       (\<forall>i < length items. get_prop (items ! i) ''Status'' = Inr JUndefined \<longrightarrow>
          (\<exists>title subtitle.
             parts ! i =
               [CHR 0x0A] @ replicate 16 (CHR '' '') @ ''<div class="schedule-item">'' @
               [CHR 0x0A] @ replicate 20 (CHR '' '') @ ''<div class="schedule-info">'' @
               [CHR 0x0A] @ replicate 24 (CHR '' '') @ ''<h4>'' @ title @ ''</h4>'' @
               [CHR 0x0A] @ replicate 24 (CHR '' '') @ ''<p>'' @ subtitle @ ''</p>'' @
               [CHR 0x0A] @ replicate 20 (CHR '' '') @ ''</div>'' @
               [CHR 0x0A] @ replicate 20 (CHR '' '') @ ''<span class="status-badge badge-pending">'' @
               [CHR 0x0A] @ replicate 24 (CHR '' '') @ ''Pending'' @
               [CHR 0x0A] @ replicate 20 (CHR '' '') @ ''</span>'' @
               [CHR 0x0A] @ replicate 16 (CHR '' '') @ ''</div>'' @
               [CHR 0x0A] @ replicate 12 (CHR '' ''))))\<close>
proof -
  let ?L = \<open>\<lambda>title subtitle.
               [CHR 0x0A] @ replicate 16 (CHR '' '') @ ''<div class="schedule-item">'' @
               [CHR 0x0A] @ replicate 20 (CHR '' '') @ ''<div class="schedule-info">'' @
               [CHR 0x0A] @ replicate 24 (CHR '' '') @ ''<h4>'' @ title @ ''</h4>'' @
               [CHR 0x0A] @ replicate 24 (CHR '' '') @ ''<p>'' @ subtitle @ ''</p>'' @
               [CHR 0x0A] @ replicate 20 (CHR '' '') @ ''</div>'' @
               [CHR 0x0A] @ replicate 20 (CHR '' '') @ ''<span class="status-badge badge-pending">'' @
               [CHR 0x0A] @ replicate 24 (CHR '' '') @ ''Pending'' @
               [CHR 0x0A] @ replicate 20 (CHR '' '') @ ''</span>'' @
               [CHR 0x0A] @ replicate 16 (CHR '' '') @ ''</div>'' @
               [CHR 0x0A] @ replicate 12 (CHR '' '')\<close>
  have e: "schedule_item_html a b ''badge-pending'' ''Pending'' = ?L a b" for a b
    by (simp add: schedule_item_html_def nl_def sp_def)
  have w: "targets (snd (loadTodaySchedule p now d)) ''today-schedule'' = Some (Markup html)"
    using loadTodaySchedule_present [OF t f] ne r by simp
  from render_schedule_shape [OF r] obtain parts where i: "items' = items"
    and p: "html = concat parts" "length parts = length items"
    and s: "\<forall>i < length items. schedule_item (items ! i) = Inr (parts ! i, items ! i)"
    by blast
  have "\<exists>title subtitle. parts ! i = ?L title subtitle"
    if "i < length items" and u: "get_prop (items ! i) ''Status'' = Inr JUndefined" for i
  proof -
    from s that have "schedule_item (items ! i) = Inr (parts ! i, items ! i)" by simp
    from schedule_item_shape [OF this] u obtain title names where
      "parts ! i = schedule_item_html title (names @ ''...'') ''badge-pending'' ''Pending''"
      by (auto simp: field_def or_else_def)
    then have "parts ! i = ?L title (names @ ''...'')" by (simp only: e)
    then show ?thesis by blast
  qed
  with w i p show ?thesis by blast
qed

text \<open>The theorem on a roster of one entry that has a clinic and a consultant and no status.\<close>

theorem status_default_display_only_witness:
  \<open>targets home_page ''today-schedule'' \<noteq> None \<and>
   fst (fetchFromAPI (ex_platform (ok_envelope (JArr [bare_entry]))) []
          [(''operation'', ''getRoster''), (''date'', iso_date 0)] home_page) =
     Inr (JArr [bare_entry]) \<and>
   [bare_entry] \<noteq> [] \<and>
   render_schedule (JArr [bare_entry]) =
     Inr (schedule_item_html ''ENT'' ''A...'' ''badge-pending'' ''Pending'', [bare_entry]) \<and>
   get_prop ([bare_entry] ! 0) ''Status'' = Inr JUndefined \<and>
   targets (snd (loadTodaySchedule (ex_platform (ok_envelope (JArr [bare_entry]))) 0 home_page))
     ''today-schedule'' =
     Some (Markup
       ([CHR 0x0A] @ replicate 16 (CHR '' '') @ ''<div class="schedule-item">'' @
        [CHR 0x0A] @ replicate 20 (CHR '' '') @ ''<div class="schedule-info">'' @
        [CHR 0x0A] @ replicate 24 (CHR '' '') @ ''<h4>ENT</h4>'' @
        [CHR 0x0A] @ replicate 24 (CHR '' '') @ ''<p>A...</p>'' @
        [CHR 0x0A] @ replicate 20 (CHR '' '') @ ''</div>'' @
        [CHR 0x0A] @ replicate 20 (CHR '' '') @ ''<span class="status-badge badge-pending">'' @
        [CHR 0x0A] @ replicate 24 (CHR '' '') @ ''Pending'' @
        [CHR 0x0A] @ replicate 20 (CHR '' '') @ ''</span>'' @
        [CHR 0x0A] @ replicate 16 (CHR '' '') @ ''</div>'' @
        [CHR 0x0A] @ replicate 12 (CHR '' '')))\<close>
proof -
  have a: "targets home_page ''today-schedule'' \<noteq> None" by (simp add: ex_defs)
  have b: "fst (fetchFromAPI (ex_platform (ok_envelope (JArr [bare_entry]))) []
      [(''operation'', ''getRoster''), (''date'', iso_date 0)] home_page) = Inr (JArr [bare_entry])"
    by (simp add: fetchFromAPI_eq fetchFromAPI_try_def ex_defs)
  have c: "[bare_entry] \<noteq> []" by simp
  have u: "get_prop ([bare_entry] ! 0) ''Status'' = Inr JUndefined"
    by (simp add: bare_entry_def)
  from status_default_display_only [OF a b c render_schedule_bare]
  have "targets (snd (loadTodaySchedule (ex_platform (ok_envelope (JArr [bare_entry]))) 0 home_page))
     ''today-schedule'' =
     Some (Markup (schedule_item_html ''ENT'' ''A...'' ''badge-pending'' ''Pending''))"
    by (rule conjunct1)
  then have "targets (snd (loadTodaySchedule (ex_platform (ok_envelope (JArr [bare_entry]))) 0 home_page))
     ''today-schedule'' =
     Some (Markup
       ([CHR 0x0A] @ replicate 16 (CHR '' '') @ ''<div class=\"schedule-item\">'' @
        [CHR 0x0A] @ replicate 20 (CHR '' '') @ ''<div class=\"schedule-info\">'' @
        [CHR 0x0A] @ replicate 24 (CHR '' '') @ ''<h4>ENT</h4>'' @
        [CHR 0x0A] @ replicate 24 (CHR '' '') @ ''<p>A...</p>'' @
        [CHR 0x0A] @ replicate 20 (CHR '' '') @ ''</div>'' @
        [CHR 0x0A] @ replicate 20 (CHR '' '') @ ''<span class=\"status-badge badge-pending\">'' @
        [CHR 0x0A] @ replicate 24 (CHR '' '') @ ''Pending'' @
        [CHR 0x0A] @ replicate 20 (CHR '' '') @ ''</span>'' @
        [CHR 0x0A] @ replicate 16 (CHR '' '') @ ''</div>'' @
        [CHR 0x0A] @ replicate 12 (CHR '' '')))"
    by (simp add: schedule_item_html_literal)
  with a b c u render_schedule_bare show ?thesis by blast
qed

subsection \<open>C9: the lifetime of a toast\<close>



subsection \<open>C10: the continuation marker\<close>

text \<open>
  Claim C10. When \<open>loadTodaySchedule\<close> renders a non-empty roster into its target, the
  markup is the concatenation of one schedule item per entry, given here character by
  character, and the subtitle element of every item is the names followed by the marker,
  \<^verbatim>\<open><p>names...</p\<close>>, whatever the number of consultants: for an entry whose
  \<^verbatim>\<open>Consultants\<close> is a string, the names are the first two of its comma-separated names
  joined by a comma and a space (all of them when there are fewer).
\<close>

theorem continuation_marker_unconditional:
  assumes t: "targets d ''today-schedule'' \<noteq> None"
    and f: "fst (fetchFromAPI p [] [(''operation'', ''getRoster''), (''date'', iso_date now)] d) =
      Inr (JArr items)"
    and ne: "items \<noteq> []"
    and r: "render_schedule (JArr items) = Inr (html, items')"
  shows \<open>targets (snd (loadTodaySchedule p now d)) ''today-schedule'' = Some (Markup html) \<and>
    (\<exists>parts. html = concat parts \<and> length parts = length items \<and>
       (\<forall>i < length items.
          \<exists>title names badge_class badge_text.
             parts ! i =
               [CHR 0x0A] @ replicate 16 (CHR '' '') @ ''<div class="schedule-item">'' @
               [CHR 0x0A] @ replicate 20 (CHR '' '') @ ''<div class="schedule-info">'' @
               [CHR 0x0A] @ replicate 24 (CHR '' '') @ ''<h4>'' @ title @ ''</h4>'' @
               [CHR 0x0A] @ replicate 24 (CHR '' '') @ ''<p>'' @ names @ ''...</p>'' @
               [CHR 0x0A] @ replicate 20 (CHR '' '') @ ''</div>'' @
               [CHR 0x0A] @ replicate 20 (CHR '' '') @ ''<span class="status-badge '' @ badge_class @ ''">'' @
               [CHR 0x0A] @ replicate 24 (CHR '' '') @ badge_text @
               [CHR 0x0A] @ replicate 20 (CHR '' '') @ ''</span>'' @
               [CHR 0x0A] @ replicate 16 (CHR '' '') @ ''</div>'' @
               [CHR 0x0A] @ replicate 12 (CHR '' '') \<and>
             sublist (''<p>'' @ names @ ''...</p>'') html \<and>
             (\<forall>s. get_prop (items ! i) ''Consultants'' = Inr (JStr s) \<longrightarrow>
                names = join '', '' (take 2 (split (CHR '','') s)))))\<close>
proof -
  let ?L = \<open>\<lambda>title names badge_class badge_text.
               [CHR 0x0A] @ replicate 16 (CHR '' '') @ ''<div class="schedule-item">'' @
               [CHR 0x0A] @ replicate 20 (CHR '' '') @ ''<div class="schedule-info">'' @
               [CHR 0x0A] @ replicate 24 (CHR '' '') @ ''<h4>'' @ title @ ''</h4>'' @
               [CHR 0x0A] @ replicate 24 (CHR '' '') @ ''<p>'' @ names @ ''...</p>'' @
               [CHR 0x0A] @ replicate 20 (CHR '' '') @ ''</div>'' @
               [CHR 0x0A] @ replicate 20 (CHR '' '') @ ''<span class="status-badge '' @ badge_class @ ''">'' @
               [CHR 0x0A] @ replicate 24 (CHR '' '') @ badge_text @
               [CHR 0x0A] @ replicate 20 (CHR '' '') @ ''</span>'' @
               [CHR 0x0A] @ replicate 16 (CHR '' '') @ ''</div>'' @
               [CHR 0x0A] @ replicate 12 (CHR '' '')\<close>
  let ?pre = \<open>\<lambda>title.
               [CHR 0x0A] @ replicate 16 (CHR '' '') @ ''<div class="schedule-item">'' @
               [CHR 0x0A] @ replicate 20 (CHR '' '') @ ''<div class="schedule-info">'' @
               [CHR 0x0A] @ replicate 24 (CHR '' '') @ ''<h4>'' @ title @ ''</h4>'' @
               [CHR 0x0A] @ replicate 24 (CHR '' '')\<close>
  let ?post = \<open>\<lambda>badge_class badge_text.
               [CHR 0x0A] @ replicate 20 (CHR '' '') @ ''</div>'' @
               [CHR 0x0A] @ replicate 20 (CHR '' '') @ ''<span class="status-badge '' @ badge_class @ ''">'' @
               [CHR 0x0A] @ replicate 24 (CHR '' '') @ badge_text @
               [CHR 0x0A] @ replicate 20 (CHR '' '') @ ''</span>'' @
               [CHR 0x0A] @ replicate 16 (CHR '' '') @ ''</div>'' @
               [CHR 0x0A] @ replicate 12 (CHR '' '')\<close>
  have e: "schedule_item_html a (n @ ''...'') c b = ?L a n c b" for a n c b
    by (simp add: schedule_item_html_def nl_def sp_def)
  have m: "sublist (''<p>'' @ n @ ''...</p>'') (?L a n c b)" for a n c b
  proof -
    have "?L a n c b = ?pre a @ (''<p>'' @ n @ ''...</p>'') @ ?post c b"
      by simp
    then show ?thesis by (simp only: sublist_appendI)
  qed
  have w: "targets (snd (loadTodaySchedule p now d)) ''today-schedule'' = Some (Markup html)"
    using loadTodaySchedule_present [OF t f] ne r by simp
  from render_schedule_shape [OF r] obtain parts where
    p: "html = concat parts" "length parts = length items"
    and s: "\<forall>i < length items. schedule_item (items ! i) = Inr (parts ! i, items ! i)"
    by blast
  have "\<exists>title names badge_class badge_text.
      parts ! i = ?L title names badge_class badge_text \<and>
      sublist (''<p>'' @ names @ ''...</p>'') html \<and>
      (\<forall>s. get_prop (items ! i) ''Consultants'' = Inr (JStr s) \<longrightarrow>
         names = join '', '' (take 2 (split (CHR '','') s)))"
    if l: "i < length items" for i
  proof -
    from s l have "schedule_item (items ! i) = Inr (parts ! i, items ! i)" by simp
    from schedule_item_shape [OF this] obtain title names c b where
      h: "parts ! i = schedule_item_html title (names @ ''...'') c b"
      and n: "\<forall>s. get_prop (items ! i) ''Consultants'' = Inr (JStr s) \<longrightarrow>
         names = join '', '' (take 2 (split (CHR '','') s))"
      by blast
    from h have h': "parts ! i = ?L title names c b" by (simp only: e)
    from l p have "parts ! i \<in> set parts" by simp
    then obtain ys zs where "parts = ys @ parts ! i # zs"
      by (meson split_list)
    then have "concat parts = concat ys @ parts ! i @ concat zs"
      by (metis concat_append concat.simps(2))
    then have "sublist (parts ! i) (concat parts)"
      by (simp only: sublist_appendI)
    with p have "sublist (parts ! i) html" by simp
    moreover have "sublist (''<p>'' @ names @ ''...</p>'') (parts ! i)"
      unfolding h' by (rule m)
    ultimately have "sublist (''<p>'' @ names @ ''...</p>'') html"
      by (meson sublist_order.order.trans)
    with h' n show ?thesis by blast
  qed
  with w p show ?thesis by blast
qed

text \<open>
  The theorem on a roster of one entry with the single consultant \<^verbatim>\<open>A\<close>: nothing is
  elided, and the subtitle element is \<^verbatim>\<open><p>A...</p\<close>>.
\<close>

theorem continuation_marker_unconditional_witness:
  \<open>targets home_page ''today-schedule'' \<noteq> None \<and>
   fst (fetchFromAPI (ex_platform (ok_envelope (JArr [bare_entry]))) []
          [(''operation'', ''getRoster''), (''date'', iso_date 0)] home_page) =
     Inr (JArr [bare_entry]) \<and>
   [bare_entry] \<noteq> [] \<and>
   render_schedule (JArr [bare_entry]) =
     Inr (schedule_item_html ''ENT'' (''A'' @ ''...'') ''badge-pending'' ''Pending'', [bare_entry]) \<and>
   get_prop ([bare_entry] ! 0) ''Consultants'' = Inr (JStr ''A'') \<and>
   join '', '' (take 2 (split (CHR '','') ''A'')) = ''A'' \<and>
   targets (snd (loadTodaySchedule (ex_platform (ok_envelope (JArr [bare_entry]))) 0 home_page))
     ''today-schedule'' =
     Some (Markup
       ([CHR 0x0A] @ replicate 16 (CHR '' '') @ ''<div class="schedule-item">'' @
        [CHR 0x0A] @ replicate 20 (CHR '' '') @ ''<div class="schedule-info">'' @
        [CHR 0x0A] @ replicate 24 (CHR '' '') @ ''<h4>ENT</h4>'' @
        [CHR 0x0A] @ replicate 24 (CHR '' '') @ ''<p>A...</p>'' @
        [CHR 0x0A] @ replicate 20 (CHR '' '') @ ''</div>'' @
        [CHR 0x0A] @ replicate 20 (CHR '' '') @ ''<span class="status-badge badge-pending">'' @
        [CHR 0x0A] @ replicate 24 (CHR '' '') @ ''Pending'' @
        [CHR 0x0A] @ replicate 20 (CHR '' '') @ ''</span>'' @
        [CHR 0x0A] @ replicate 16 (CHR '' '') @ ''</div>'' @
        [CHR 0x0A] @ replicate 12 (CHR '' '')))\<close>
proof -
  have a: "targets home_page ''today-schedule'' \<noteq> None" by (simp add: ex_defs)
  have b: "fst (fetchFromAPI (ex_platform (ok_envelope (JArr [bare_entry]))) []
      [(''operation'', ''getRoster''), (''date'', iso_date 0)] home_page) = Inr (JArr [bare_entry])"
    by (simp add: fetchFromAPI_eq fetchFromAPI_try_def ex_defs)
  have c: "[bare_entry] \<noteq> []" by simp
  have r: "render_schedule (JArr [bare_entry]) =
     Inr (schedule_item_html ''ENT'' (''A'' @ ''...'') ''badge-pending'' ''Pending'', [bare_entry])"
    using render_schedule_bare by simp
  have u: "get_prop ([bare_entry] ! 0) ''Consultants'' = Inr (JStr ''A'')"
    by (simp add: bare_entry_def)
  have j: "join '', '' (take 2 (split (CHR '','') ''A'')) = ''A''" by simp
  from continuation_marker_unconditional [OF a b c r]
  have "targets (snd (loadTodaySchedule (ex_platform (ok_envelope (JArr [bare_entry]))) 0 home_page))
     ''today-schedule'' =
     Some (Markup (schedule_item_html ''ENT'' (''A'' @ ''...'') ''badge-pending'' ''Pending''))"
    by (rule conjunct1)
  then have "targets (snd (loadTodaySchedule (ex_platform (ok_envelope (JArr [bare_entry]))) 0 home_page))
     ''today-schedule'' =
     Some (Markup
       ([CHR 0x0A] @ replicate 16 (CHR '' '') @ ''<div class=\"schedule-item\">'' @
        [CHR 0x0A] @ replicate 20 (CHR '' '') @ ''<div class=\"schedule-info\">'' @
        [CHR 0x0A] @ replicate 24 (CHR '' '') @ ''<h4>ENT</h4>'' @
        [CHR 0x0A] @ replicate 24 (CHR '' '') @ ''<p>A...</p>'' @
        [CHR 0x0A] @ replicate 20 (CHR '' '') @ ''</div>'' @
        [CHR 0x0A] @ replicate 20 (CHR '' '') @ ''<span class=\"status-badge badge-pending\">'' @
        [CHR 0x0A] @ replicate 24 (CHR '' '') @ ''Pending'' @
        [CHR 0x0A] @ replicate 20 (CHR '' '') @ ''</span>'' @
        [CHR 0x0A] @ replicate 16 (CHR '' '') @ ''</div>'' @
        [CHR 0x0A] @ replicate 12 (CHR '' '')))"
    by (simp add: schedule_item_html_literal)
  with a b c r u j show ?thesis by blast
qed

end
